theory Spec2Isabelle
  imports Complex_Main "HOL-Library.Sublist" "HOL-Library.Multiset"
begin

section \<open>Strings and characters\<close>

text \<open>
  Python strings are sequences of code points. A HOL \<open>char\<close> has 256 values, read here
  as the code points U+0000 to U+00FF; on that range the three functions below follow
  Python's \<open>str.isspace\<close> (which is also what the pattern \<open>\s\<close> and \<open>str.strip\<close> use),
  the pattern \<open>\w\<close> (alphanumeric or underscore) and \<open>str.lower\<close>.
\<close>

definition isspace :: "char \<Rightarrow> bool" where
  "isspace c =
     (let n = (of_char c :: nat)
      in (9 \<le> n \<and> n \<le> 13) \<or> (28 \<le> n \<and> n \<le> 32) \<or> n = 133 \<or> n = 160)"

definition is_word :: "char \<Rightarrow> bool" where
  "is_word c =
     (let n = (of_char c :: nat)
      in (48 \<le> n \<and> n \<le> 57) \<or> (65 \<le> n \<and> n \<le> 90) \<or> n = 95 \<or> (97 \<le> n \<and> n \<le> 122)
         \<or> n = 170 \<or> n = 178 \<or> n = 179 \<or> n = 181 \<or> n = 185 \<or> n = 186
         \<or> n = 188 \<or> n = 189 \<or> n = 190
         \<or> (192 \<le> n \<and> n \<le> 214) \<or> (216 \<le> n \<and> n \<le> 246) \<or> (248 \<le> n \<and> n \<le> 255))"

definition lower_char :: "char \<Rightarrow> char" where
  "lower_char c =
     (let n = (of_char c :: nat)
      in if (65 \<le> n \<and> n \<le> 90) \<or> (192 \<le> n \<and> n \<le> 214) \<or> (216 \<le> n \<and> n \<le> 222)
         then char_of (n + 32) else c)"

definition lower :: "string \<Rightarrow> string" where
  "lower s = map lower_char s"

text \<open>\<open>s.strip()\<close>: whitespace removed at both ends.\<close>

definition strip :: "string \<Rightarrow> string" where
  "strip s = rev (dropWhile isspace (rev (dropWhile isspace s)))"

text \<open>\<open>sub in s\<close>: \<open>sub\<close> occurs in \<open>s\<close> as a contiguous substring.\<close>

fun str_in :: "string \<Rightarrow> string \<Rightarrow> bool" where
  "str_in sub [] = (sub = [])"
| "str_in sub (c # cs) = (prefix sub (c # cs) \<or> str_in sub cs)"

text \<open>\<open>sep.join(ws)\<close>.\<close>

fun join :: "string \<Rightarrow> string list \<Rightarrow> string" where
  "join sep [] = []"
| "join sep [w] = w"
| "join sep (w # ws) = w @ sep @ join sep ws"

text \<open>\<open>re.sub(r'\s+', ' ', s)\<close>: every maximal run of whitespace becomes one space.\<close>

function collapse_ws :: "string \<Rightarrow> string" where
  "collapse_ws [] = []"
| "collapse_ws (c # cs) =
     (if isspace c then CHR '' '' # collapse_ws (dropWhile isspace cs)
      else c # collapse_ws cs)"
  by pat_completeness auto
termination
  by (relation "measure length") (auto simp: length_dropWhile_le less_Suc_eq_le)

text \<open>
  The maximal runs of word characters of a string, left to right.
  \<open>re.findall(r'\b\w{3,}\b', s)\<close> returns those of length at least 3: a match can only
  start at the beginning of a run, the greedy \<open>\w{3,}\<close> takes the whole run, and the
  run's end is a word boundary.
\<close>

function word_runs :: "string \<Rightarrow> string list" where
  "word_runs [] = []"
| "word_runs (c # cs) =
     (if is_word c then (c # takeWhile is_word cs) # word_runs (dropWhile is_word cs)
      else word_runs cs)"
  by pat_completeness auto
termination
  by (relation "measure length") (auto simp: length_dropWhile_le less_Suc_eq_le)

definition findall_w3 :: "string \<Rightarrow> string list" where
  "findall_w3 s = filter (\<lambda>w. 3 \<le> length w) (word_runs s)"

section \<open>Query normalisation and keyword extraction (search\_api.py)\<close>

text \<open>
  \<open>normalize_query\<close>: lowercase, every character that is neither a word character nor
  whitespace becomes a space, whitespace runs collapse, the ends are stripped.
\<close>

definition normalize_query :: "string \<Rightarrow> string" where
  "normalize_query query =
     strip (collapse_ws (map (\<lambda>c. if is_word c \<or> isspace c then c else CHR '' '') (lower query)))"

definition stop_words :: "string list" where
  "stop_words =
     [''the'', ''and'', ''for'', ''are'', ''but'', ''not'', ''you'', ''all'', ''can'', ''had'',
      ''her'', ''was'', ''one'', ''our'', ''out'', ''day'', ''get'', ''has'', ''him'', ''his'',
      ''how'', ''its'', ''may'', ''new'', ''now'', ''old'', ''see'', ''two'', ''way'', ''who'',
      ''boy'', ''did'', ''she'', ''use'', ''her'', ''way'', ''many'', ''some'', ''time'',
      ''very'', ''when'', ''much'', ''then'', ''them'', ''well'', ''were'']"

definition extract_keywords :: "string \<Rightarrow> string list" where
  "extract_keywords text =
     (if text = [] then []
      else filter (\<lambda>word. word \<notin> set stop_words) (findall_w3 (lower text)))"

section \<open>The store's rows and the scored result\<close>

text \<open>
  A row of table \<open>repo_index\<close>, with the columns of \<open>_setup_database\<close>. Column
  \<open>topics\<close> is text: the JSON rendering of the topic list. The rows are those the indexer
  writes, so no column is NULL and the source's \<open>repo[field] or ""\<close> and
  \<open>repo['stars'] or 0\<close> leave the value as it is.
\<close>

record row =
  full_name :: string
  name :: string
  description :: string
  language :: string
  stars :: int
  updated_at :: string
  html_url :: string
  owner_login :: string
  owner_avatar :: string
  archived :: bool
  readme_content :: string
  topics :: string
  last_indexed :: string
  content_hash :: string

text \<open>Python's exceptions that the modelled code can raise.\<close>

datatype error = OperationalError | ValueError

text \<open>Dataclass \<open>SearchResult\<close>; the dict \<open>snippets\<close> is an association list.\<close>

record SearchResult =
  repo :: row
  score :: real
  matched_fields :: "string list"
  snippets :: "(string \<times> string) list"

section \<open>Fuzzy scoring (search\_api.py)\<close>

text \<open>
  Python's floats are idealised as real numbers. \<open>difflib.SequenceMatcher(None, a, b).ratio()\<close>
  belongs to the standard library and is a parameter \<open>ratio\<close> of the model; so is
  \<open>json.loads\<close>, as a function that returns \<open>None\<close> where the library raises.
\<close>

type_synonym ratio_fn = "string \<Rightarrow> string \<Rightarrow> real"
type_synonym json_loads_fn = "string \<Rightarrow> string list option"

text \<open>The score of one text word against one query word (the body of the inner loop).\<close>

definition word_score :: "ratio_fn \<Rightarrow> string \<Rightarrow> string \<Rightarrow> real" where
  "word_score ratio query_word text_word =
     (if query_word = text_word then 1
      else if str_in query_word text_word \<or> str_in text_word query_word then 0.8
      else (let score = ratio query_word text_word in if score < 0.6 then 0 else score))"

text \<open>The inner loop over \<open>text_words\<close>, on the pair (best\_match\_score, best\_match).\<close>

fun best_match :: "ratio_fn \<Rightarrow> string \<Rightarrow> string list \<Rightarrow> real \<times> string option \<Rightarrow> real \<times> string option" where
  "best_match ratio query_word [] acc = acc"
| "best_match ratio query_word (text_word # text_words) (best_match_score, best) =
     (let score = word_score ratio query_word text_word
      in if score > best_match_score
         then best_match ratio query_word text_words (score, Some text_word)
         else best_match ratio query_word text_words (best_match_score, best))"

text \<open>The outer loop over \<open>query_words\<close>, on the pair (total\_score, matches).\<close>

fun sum_matches :: "ratio_fn \<Rightarrow> string list \<Rightarrow> string list \<Rightarrow> real \<times> string list \<Rightarrow> real \<times> string list" where
  "sum_matches ratio text_words [] acc = acc"
| "sum_matches ratio text_words (query_word # query_words) (total_score, matches) =
     (case best_match ratio query_word text_words (0, None) of
        (best_match_score, best) \<Rightarrow>
          if best_match_score > 0
          then sum_matches ratio text_words query_words
                 (total_score + best_match_score,
                  matches @ (case best of None \<Rightarrow> [] | Some w \<Rightarrow> [w]))
          else sum_matches ratio text_words query_words (total_score, matches))"

definition calculate_text_similarity :: "ratio_fn \<Rightarrow> string list \<Rightarrow> string \<Rightarrow> real \<times> string list" where
  "calculate_text_similarity ratio query_words text =
     (if text = [] \<or> query_words = [] then (0, [])
      else let text_words = extract_keywords text
           in if text_words = [] then (0, [])
              else (case sum_matches ratio text_words query_words (0, []) of
                      (total_score, matches) \<Rightarrow>
                        (total_score / real (length query_words), matches)))"

text \<open>
  \<open>extract_snippet\<close>: the window positions are \<open>range(0, len(text), 50)\<close>; a window's
  score is the number of query words it contains; the first window of the best score wins.
\<close>

fun best_window :: "string \<Rightarrow> string list \<Rightarrow> nat \<Rightarrow> nat list \<Rightarrow> nat \<times> nat \<Rightarrow> nat \<times> nat" where
  "best_window text_lower query_words max_length [] acc = acc"
| "best_window text_lower query_words max_length (i # is) (best_pos, best_score) =
     (let snippet = take max_length (drop i text_lower);
          score = length (filter (\<lambda>word. str_in word snippet) query_words)
      in if score > best_score
         then best_window text_lower query_words max_length is (i, score)
         else best_window text_lower query_words max_length is (best_pos, best_score))"

definition extract_snippet :: "string \<Rightarrow> string list \<Rightarrow> nat \<Rightarrow> string" where
  "extract_snippet text query_words max_length =
     (if text = [] \<or> query_words = []
      then (if length text > max_length then take max_length text @ ''...'' else text)
      else (case best_window (lower text) query_words max_length
                   (map (\<lambda>k. 50 * k) [0 ..< (length text + 49) div 50]) (0, 0) of
              (best_pos, best_score) \<Rightarrow>
                (let snippet = take max_length (drop best_pos text);
                     snippet = (if best_pos > 0 then ''...'' @ snippet else snippet)
                 in if best_pos + max_length < length text then snippet @ ''...'' else snippet)))"

text \<open>The dict \<open>fields_weights\<close>, in its insertion order (the order the loop visits).\<close>

definition fields_weights :: "(string \<times> real) list" where
  "fields_weights =
     [(''name'', 3), (''full_name'', 5/2), (''description'', 2),
      (''readme_content'', 3/2), (''topics'', 5/2)]"

text \<open>\<open>repo[field]\<close> for the five text columns that the loop reads.\<close>

definition column :: "row \<Rightarrow> string \<Rightarrow> string" where
  "column r field =
     (if field = ''name'' then name r
      else if field = ''full_name'' then full_name r
      else if field = ''description'' then description r
      else if field = ''readme_content'' then readme_content r
      else if field = ''topics'' then topics r
      else [])"

text \<open>
  The text that a field is scored on: the column, and for \<open>topics\<close> the topic list joined
  by spaces, or the empty string where \<open>json.loads\<close> raises.
\<close>

definition field_text :: "json_loads_fn \<Rightarrow> row \<Rightarrow> string \<Rightarrow> string" where
  "field_text json_loads r field =
     (let field_value = column r field
      in if field = ''topics''
         then (case (if field_value \<noteq> [] then json_loads field_value else Some []) of
                 Some topics_list \<Rightarrow> join '' '' topics_list
               | None \<Rightarrow> [])
         else field_value)"

text \<open>The loop over \<open>fields_weights\<close>, on (total\_score, matched\_fields, snippets).\<close>

fun score_fields ::
  "ratio_fn \<Rightarrow> json_loads_fn \<Rightarrow> row \<Rightarrow> string list \<Rightarrow> (string \<times> real) list
     \<Rightarrow> real \<times> string list \<times> (string \<times> string) list
     \<Rightarrow> real \<times> string list \<times> (string \<times> string) list" where
  "score_fields ratio json_loads r query_words [] acc = acc"
| "score_fields ratio json_loads r query_words ((field, weight) # fws) (total_score, matched, snips) =
     (let field_value = field_text json_loads r field
      in if field_value \<noteq> []
         then (case calculate_text_similarity ratio query_words field_value of
                 (similarity, matches) \<Rightarrow>
                   if similarity > 0
                   then score_fields ratio json_loads r query_words fws
                          (total_score + similarity * weight,
                           matched @ [field],
                           if field = ''description'' \<or> field = ''readme_content''
                           then snips @ [(field, extract_snippet field_value query_words 200)]
                           else snips)
                   else score_fields ratio json_loads r query_words fws (total_score, matched, snips))
         else score_fields ratio json_loads r query_words fws (total_score, matched, snips))"

text \<open>
  \<open>min(math.log10(stars + 1) * 0.1, 0.5)\<close>; \<open>math.log10\<close> raises ValueError on an
  argument that is not positive.
\<close>

definition popularity_boost :: "int \<Rightarrow> error + real" where
  "popularity_boost st =
     (if st + 1 \<le> 0 then Inl ValueError
      else Inr (min (log 10 (real_of_int (st + 1)) * 0.1) 0.5))"

definition score_repository :: "ratio_fn \<Rightarrow> json_loads_fn \<Rightarrow> row \<Rightarrow> string \<Rightarrow> error + SearchResult" where
  "score_repository ratio json_loads r query =
     (let normalized_query = normalize_query query;
          query_words = extract_keywords normalized_query
      in if query_words = []
         then Inr \<lparr>repo = r, score = 0, matched_fields = [], snippets = []\<rparr>
         else (case score_fields ratio json_loads r query_words fields_weights (0, [], []) of
                 (total_score, matched, snips) \<Rightarrow>
                   (case popularity_boost (stars r) of
                      Inl e \<Rightarrow> Inl e
                    | Inr boost \<Rightarrow>
                        (let total_score = total_score + boost;
                             total_score = (if archived r then total_score * 0.7 else total_score)
                         in Inr \<lparr>repo = r, score = total_score,
                                 matched_fields = matched, snippets = snips\<rparr>))))"

text \<open>
  Two names for what the loop computes: the similarity of one field, and the total before
  the popularity boost and the archival penalty.
\<close>

definition field_similarity :: "ratio_fn \<Rightarrow> json_loads_fn \<Rightarrow> row \<Rightarrow> string list \<Rightarrow> string \<Rightarrow> real" where
  "field_similarity ratio json_loads r query_words field =
     fst (calculate_text_similarity ratio query_words (field_text json_loads r field))"

definition relevance :: "ratio_fn \<Rightarrow> json_loads_fn \<Rightarrow> row \<Rightarrow> string list \<Rightarrow> real" where
  "relevance ratio json_loads r query_words =
     fst (score_fields ratio json_loads r query_words fields_weights (0, [], []))"

section \<open>The database: table, full-text index and triggers (enhanced\_github\_indexer.py)\<close>

text \<open>
  Table \<open>repo_index\<close> is the list of its rows with their rowids, in rowid order. The
  full-text index \<open>repo_fts\<close> is an external-content FTS5 table: it holds what the triggers
  have inserted and not deleted, one entry per insertion, with the rowid and the five
  indexed columns. \<open>recursive_triggers\<close> is the connection's setting of that name.
\<close>

type_synonym fts_entry = "nat \<times> string \<times> string \<times> string \<times> string \<times> string"

record database =
  repo_index :: "(nat \<times> row) list"
  repo_fts :: "fts_entry list"
  recursive_triggers :: bool

text \<open>
  A fresh database after \<open>_setup_database\<close>. The source never sets
  \<open>PRAGMA recursive_triggers\<close>, so the setting keeps SQLite's default, off.
\<close>

definition setup_database :: database where
  "setup_database = \<lparr>repo_index = [], repo_fts = [], recursive_triggers = False\<rparr>"

definition fts_row :: "nat \<times> row \<Rightarrow> fts_entry" where
  "fts_row x = (case x of (rid, r) \<Rightarrow>
     (rid, full_name r, name r, description r, readme_content r, topics r))"

text \<open>Trigger \<open>repo_ai\<close>: after an insert, index the new row.\<close>

definition repo_ai :: "nat \<times> row \<Rightarrow> database \<Rightarrow> database" where
  "repo_ai new db = db\<lparr>repo_fts := repo_fts db @ [fts_row new]\<rparr>"

text \<open>Trigger \<open>repo_ad\<close>: after a delete, the FTS5 \<open>'delete'\<close> command with the old values.\<close>

definition repo_ad :: "nat \<times> row \<Rightarrow> database \<Rightarrow> database" where
  "repo_ad old db = db\<lparr>repo_fts := remove1 (fts_row old) (repo_fts db)\<rparr>"

text \<open>Trigger \<open>repo_au\<close>: after an update, delete the old entry, then index the new row.\<close>

definition repo_au :: "nat \<times> row \<Rightarrow> nat \<times> row \<Rightarrow> database \<Rightarrow> database" where
  "repo_au old new db = repo_ai new (repo_ad old db)"

text \<open>The rowid SQLite gives a row inserted without one: one more than the largest in use.\<close>

definition next_rowid :: "(nat \<times> row) list \<Rightarrow> nat" where
  "next_rowid t = fold max (map fst t) 0 + 1"

text \<open>
  \<open>INSERT OR REPLACE INTO repo_index\<close>. The new rowid is chosen first. The rows that
  conflict on the primary key \<open>full_name\<close> are deleted; for these deletions SQLite fires the
  delete trigger if and only if recursive triggers are enabled. Then the row is inserted
  and \<open>repo_ai\<close> fires. No statement of the source is an UPDATE, so \<open>repo_au\<close> never fires.
\<close>

definition insert_or_replace :: "row \<Rightarrow> database \<Rightarrow> database" where
  "insert_or_replace new db =
     (let rid = next_rowid (repo_index db);
          conflicts = filter (\<lambda>x. full_name (snd x) = full_name new) (repo_index db);
          db1 = db\<lparr>repo_index := filter (\<lambda>x. full_name (snd x) \<noteq> full_name new) (repo_index db)\<rparr>;
          db2 = (if recursive_triggers db1 then fold repo_ad conflicts db1 else db1);
          db3 = db2\<lparr>repo_index := repo_index db2 @ [(rid, new)]\<rparr>
      in repo_ai (rid, new) db3)"

text \<open>Dataclass \<open>RepoContent\<close> (its fields carry the prefix \<open>rc_\<close>).\<close>

record RepoContent =
  rc_full_name :: string
  rc_name :: string
  rc_description :: string
  rc_language :: string
  rc_stars :: int
  rc_updated_at :: string
  rc_html_url :: string
  rc_owner_login :: string
  rc_owner_avatar :: string
  rc_archived :: bool
  rc_readme_content :: string
  rc_topics :: "string list"
  rc_last_indexed :: string

text \<open>
  \<open>hashlib.md5(s.encode()).hexdigest()\<close> and \<open>json.dumps\<close> are library functions and
  parameters of the model.
\<close>

type_synonym md5_fn = "string \<Rightarrow> string"
type_synonym json_dumps_fn = "string list \<Rightarrow> string"

definition get_content_hash :: "md5_fn \<Rightarrow> RepoContent \<Rightarrow> string" where
  "get_content_hash md5 rc = md5 (rc_description rc @ rc_readme_content rc @ rc_updated_at rc)"

text \<open>\<open>SELECT content_hash FROM repo_index WHERE full_name = ?\<close> with \<open>fetchone()\<close>.\<close>

definition select_content_hash :: "database \<Rightarrow> string \<Rightarrow> string option" where
  "select_content_hash db key =
     (case filter (\<lambda>x. full_name (snd x) = key) (repo_index db) of
        [] \<Rightarrow> None
      | x # _ \<Rightarrow> Some (content_hash (snd x)))"

definition save_to_database :: "md5_fn \<Rightarrow> json_dumps_fn \<Rightarrow> RepoContent \<Rightarrow> database \<Rightarrow> database" where
  "save_to_database md5 json_dumps rc db =
     (let h = get_content_hash md5 rc;
          result = select_content_hash db (rc_full_name rc)
      in if result = Some h then db
         else insert_or_replace
                \<lparr>full_name = rc_full_name rc, name = rc_name rc,
                 description = rc_description rc, language = rc_language rc,
                 stars = rc_stars rc, updated_at = rc_updated_at rc,
                 html_url = rc_html_url rc, owner_login = rc_owner_login rc,
                 owner_avatar = rc_owner_avatar rc, archived = rc_archived rc,
                 readme_content = rc_readme_content rc, topics = json_dumps (rc_topics rc),
                 last_indexed = rc_last_indexed rc, content_hash = h\<rparr>
                db)"

text \<open>The index agrees with the table: its entries are exactly those of the table's rows.\<close>

definition in_sync :: "database \<Rightarrow> bool" where
  "in_sync db = (mset (repo_fts db) = mset (map fts_row (repo_index db)))"

section \<open>The README cache (enhanced\_github\_indexer.py)\<close>

text \<open>
  The cache directory maps a file name to the file's modification time and text. Times
  are points on the UTC time line, in microseconds. \<open>parse_time\<close> stands for
  \<open>datetime.fromisoformat(s.replace('Z', '+00:00'))\<close> and gives the error where the
  conversion raises; \<open>http_get\<close> gives the decoded content of a URL that answers 200 with
  a non-empty file, \<open>None\<close> otherwise; \<open>now\<close> is the time a written file is stamped with.
\<close>

type_synonym cache = "string \<rightharpoonup> (int \<times> string)"
type_synonym parse_time_fn = "string \<Rightarrow> error + int"
type_synonym http_get_fn = "string \<Rightarrow> string option"

definition cache_file_name :: "string \<Rightarrow> string" where
  "cache_file_name fn = map (\<lambda>c. if c = CHR ''/'' then CHR ''_'' else c) fn @ ''_readme.txt''"

text \<open>The cache check that opens \<open>fetch_readme_content\<close>: the cached text, or a miss.\<close>

definition cache_get :: "parse_time_fn \<Rightarrow> cache \<Rightarrow> string \<Rightarrow> string \<Rightarrow> error + string option" where
  "cache_get parse_time c fn upd =
     (case c (cache_file_name fn) of
        None \<Rightarrow> Inr None
      | Some (cache_modified, text) \<Rightarrow>
          (case parse_time upd of
             Inl e \<Rightarrow> Inl e
           | Inr repo_updated \<Rightarrow>
               if cache_modified > repo_updated then Inr (Some text) else Inr None))"

definition readme_files :: "string list" where
  "readme_files = [''README.md'', ''readme.md'', ''README.rst'', ''README.txt'', ''README'']"

text \<open>The loop over the candidate file names: the first that is found is cleaned, cached and returned.\<close>

fun fetch_from_api ::
  "http_get_fn \<Rightarrow> (string \<Rightarrow> string) \<Rightarrow> int \<Rightarrow> cache \<Rightarrow> string \<Rightarrow> string list \<Rightarrow> string \<times> cache" where
  "fetch_from_api http_get clean_markdown now c fn [] = ([], c)"
| "fetch_from_api http_get clean_markdown now c fn (readme_file # rest) =
     (case http_get (''https://api.github.com/repos/'' @ fn @ ''/contents/'' @ readme_file) of
        Some content \<Rightarrow>
          (let cleaned_content = clean_markdown content
           in (cleaned_content, c(cache_file_name fn \<mapsto> (now, cleaned_content))))
      | None \<Rightarrow> fetch_from_api http_get clean_markdown now c fn rest)"

definition fetch_readme_content ::
  "parse_time_fn \<Rightarrow> http_get_fn \<Rightarrow> (string \<Rightarrow> string) \<Rightarrow> int \<Rightarrow> cache \<Rightarrow> string \<Rightarrow> string
     \<Rightarrow> error + string \<times> cache" where
  "fetch_readme_content parse_time http_get clean_markdown now c fn upd =
     (case cache_get parse_time c fn upd of
        Inl e \<Rightarrow> Inl e
      | Inr (Some text) \<Rightarrow> Inr (text, c)
      | Inr None \<Rightarrow> Inr (fetch_from_api http_get clean_markdown now c fn readme_files))"

section \<open>Search, browse and suggestions (search\_api.py)\<close>

text \<open>
  \<open>ORDER BY stars DESC\<close>: a stable sort of the table's scan order. SQLite leaves the
  order of rows with equal stars open, and the model fixes it to the scan order.
\<close>

definition order_by_stars_desc :: "(nat \<times> row) list \<Rightarrow> (nat \<times> row) list" where
  "order_by_stars_desc t = sort_key (\<lambda>x. - stars (snd x)) t"

text \<open>\<open>LIMIT n\<close>: a negative \<open>n\<close> is no limit.\<close>

definition sql_limit :: "int \<Rightarrow> 'a list \<Rightarrow> 'a list" where
  "sql_limit n xs = (if n < 0 then xs else take (nat n) xs)"

text \<open>The slice \<open>xs[:n]\<close>: a negative \<open>n\<close> drops the last \<open>-n\<close> elements.\<close>

definition slice_to :: "int \<Rightarrow> 'a list \<Rightarrow> 'a list" where
  "slice_to n xs = (if n < 0 then take (length xs - nat (- n)) xs else take (nat n) xs)"

definition get_all_repos :: "database \<Rightarrow> int \<Rightarrow> SearchResult list" where
  "get_all_repos db limit =
     map (\<lambda>x. \<lparr>repo = snd x, score = 0, matched_fields = [], snippets = []\<rparr>)
       (sql_limit limit (order_by_stars_desc (repo_index db)))"

text \<open>
  The full-text engine is a parameter: from the index and a MATCH expression it gives the
  matching rowids, or \<open>None\<close> where SQLite raises \<open>sqlite3.OperationalError\<close>.
\<close>

type_synonym fts_match_fn = "fts_entry list \<Rightarrow> string \<Rightarrow> nat list option"

text \<open>The loop that scores the full-text results.\<close>

fun score_fts_results ::
  "ratio_fn \<Rightarrow> json_loads_fn \<Rightarrow> string \<Rightarrow> real \<Rightarrow> row list \<Rightarrow> SearchResult list
     \<Rightarrow> error + SearchResult list" where
  "score_fts_results ratio json_loads query min_score [] results = Inr results"
| "score_fts_results ratio json_loads query min_score (r # rs) results =
     (case score_repository ratio json_loads r query of
        Inl e \<Rightarrow> Inl e
      | Inr result \<Rightarrow>
          if score result \<ge> min_score
          then score_fts_results ratio json_loads query min_score rs (results @ [result])
          else score_fts_results ratio json_loads query min_score rs results)"

text \<open>The fuzzy loop over all rows, which skips the rows already among the results.\<close>

fun fuzzy_scan ::
  "ratio_fn \<Rightarrow> json_loads_fn \<Rightarrow> string \<Rightarrow> real \<Rightarrow> row list \<Rightarrow> SearchResult list
     \<Rightarrow> error + SearchResult list" where
  "fuzzy_scan ratio json_loads query min_score [] results = Inr results"
| "fuzzy_scan ratio json_loads query min_score (r # rs) results =
     (if full_name r \<in> set (map (\<lambda>x. full_name (repo x)) results)
      then fuzzy_scan ratio json_loads query min_score rs results
      else (case score_repository ratio json_loads r query of
              Inl e \<Rightarrow> Inl e
            | Inr result \<Rightarrow>
                if score result \<ge> min_score
                then fuzzy_scan ratio json_loads query min_score rs (results @ [result])
                else fuzzy_scan ratio json_loads query min_score rs results))"

text \<open>
  \<open>search\<close>. The \<open>try\<close> block catches only \<open>sqlite3.OperationalError\<close>, which the MATCH
  query raises before any result is appended; an error of \<open>score_repository\<close> propagates.
  \<open>limit // 2\<close> is floor division, as \<open>div\<close> on \<open>int\<close> is. The final sort is stable and
  descending in the score.
\<close>

definition search ::
  "ratio_fn \<Rightarrow> json_loads_fn \<Rightarrow> fts_match_fn \<Rightarrow> database \<Rightarrow> string \<Rightarrow> int \<Rightarrow> real
     \<Rightarrow> error + SearchResult list" where
  "search ratio json_loads fts_match db query limit min_score =
     (if strip query = [] then Inr (get_all_repos db limit)
      else let normalized_query = normalize_query query;
               query_words = extract_keywords normalized_query
           in if query_words = [] then Inr (get_all_repos db limit)
              else (case (case fts_match (repo_fts db) (join '' OR '' query_words) of
                            None \<Rightarrow> Inr []
                          | Some rowids \<Rightarrow>
                              score_fts_results ratio json_loads query min_score
                                (map snd (filter (\<lambda>x. fst x \<in> set rowids)
                                            (order_by_stars_desc (repo_index db)))) []) of
                      Inl e \<Rightarrow> Inl e
                    | Inr results \<Rightarrow>
                        (case (if int (length results) < limit div 2
                               then fuzzy_scan ratio json_loads query min_score
                                      (map snd (order_by_stars_desc (repo_index db))) results
                               else Inr results) of
                           Inl e \<Rightarrow> Inl e
                         | Inr results \<Rightarrow>
                             Inr (slice_to limit (sort_key (\<lambda>x. - score x) results)))))"

text \<open>
  \<open>get_suggestions\<close>. The set \<open>suggestions\<close> is a list without repetition, in the order
  of insertion (Python leaves the order of \<open>list(suggestions)\<close> open). SQLite's
  \<open>LIKE\<close> is a parameter, with the text first and the pattern second.
\<close>

type_synonym like_fn = "string \<Rightarrow> string \<Rightarrow> bool"

definition set_add :: "string \<Rightarrow> string list \<Rightarrow> string list" where
  "set_add x xs = (if x \<in> set xs then xs else xs @ [x])"

definition add_row_suggestions ::
  "json_loads_fn \<Rightarrow> string \<Rightarrow> nat \<times> row \<Rightarrow> string list \<Rightarrow> string list" where
  "add_row_suggestions json_loads normalized_query x suggestions =
     (let suggestions =
            (if str_in normalized_query (lower (name (snd x)))
             then set_add (name (snd x)) suggestions else suggestions)
      in case (if topics (snd x) \<noteq> [] then json_loads (topics (snd x)) else Some []) of
           Some ts \<Rightarrow>
             fold (\<lambda>topic s. if str_in normalized_query (lower topic) then set_add topic s else s)
               ts suggestions
         | None \<Rightarrow> suggestions)"

definition get_suggestions ::
  "like_fn \<Rightarrow> json_loads_fn \<Rightarrow> database \<Rightarrow> string \<Rightarrow> int \<Rightarrow> string list" where
  "get_suggestions like json_loads db query limit =
     (let normalized_query = normalize_query query
      in if length normalized_query < 2 then []
         else (let pattern = ''%'' @ normalized_query @ ''%'';
                   rows = sql_limit (limit * 3)
                            (filter (\<lambda>x. like (name (snd x)) pattern \<or> like (topics (snd x)) pattern)
                               (repo_index db))
               in slice_to limit (fold (add_row_suggestions json_loads normalized_query) rows [])))"


section \<open>Example data\<close>

text \<open>
  Two rows as the indexer writes them, and stand-ins for the library functions on the
  inputs that the examples use.
\<close>

definition fastjson_row :: row where
  "fastjson_row =
     \<lparr>full_name = ''acme/fastjson'', name = ''fastjson'', description = ''A fast JSON parser'',
      language = ''Go'', stars = 999, updated_at = ''2024-01-01T00:00:00Z'',
      html_url = ''https://github.com/acme/fastjson'', owner_login = ''acme'',
      owner_avatar = [], archived = False, readme_content = [], topics = ''[]'',
      last_indexed = ''2024-02-01T00:00:00+00:00'', content_hash = ''h1''\<rparr>"

definition slowjson_row :: row where
  "slowjson_row =
     \<lparr>full_name = ''acme/slowjson'', name = ''slowjson'', description = [],
      language = ''Go'', stars = 9, updated_at = ''2024-01-01T00:00:00Z'',
      html_url = ''https://github.com/acme/slowjson'', owner_login = ''acme'',
      owner_avatar = [], archived = True, readme_content = [], topics = ''[]'',
      last_indexed = ''2024-02-01T00:00:00+00:00'', content_hash = ''h2''\<rparr>"

definition no_ratio :: ratio_fn where
  "no_ratio a b = 0"

definition loads_empty :: json_loads_fn where
  "loads_empty s = (if s = ''[]'' then Some [] else None)"

text \<open>A cache with one file, two clocks, and a remote that serves one README.\<close>

definition cache1 :: cache where
  "cache1 = Map.empty(''acme_fastjson_readme.txt'' \<mapsto> (200, ''cached text''))"

definition parse100 :: parse_time_fn where
  "parse100 s = Inr 100"

definition parse200 :: parse_time_fn where
  "parse200 s = Inr 200"

definition http1 :: http_get_fn where
  "http1 url = (if url = ''https://api.github.com/repos/acme/fastjson/contents/README.md''
                then Some ''fresh text'' else None)"

text \<open>Three versions of one repository, and stand-ins for the digest and for \<open>json.dumps\<close>.\<close>

definition rc_first :: RepoContent where
  "rc_first =
     \<lparr>rc_full_name = ''acme/fastjson'', rc_name = ''fastjson'',
      rc_description = ''A fast JSON parser'', rc_language = ''Go'', rc_stars = 999,
      rc_updated_at = ''2024-01-01T00:00:00Z'', rc_html_url = ''https://github.com/acme/fastjson'',
      rc_owner_login = ''acme'', rc_owner_avatar = [], rc_archived = False,
      rc_readme_content = [], rc_topics = [], rc_last_indexed = ''2024-02-01T00:00:00+00:00''\<rparr>"

definition rc_restarred :: RepoContent where
  "rc_restarred = rc_first\<lparr>rc_stars := 1500, rc_last_indexed := ''2024-03-01T00:00:00+00:00''\<rparr>"

definition rc_rewritten :: RepoContent where
  "rc_rewritten = rc_first\<lparr>rc_description := ''A slow XML printer'',
                            rc_updated_at := ''2024-04-01T00:00:00Z'',
                            rc_last_indexed := ''2024-04-02T00:00:00+00:00''\<rparr>"

definition plain_digest :: md5_fn where
  "plain_digest s = s"

definition dumps_stub :: json_dumps_fn where
  "dumps_stub ts = ''['' @ join '', '' ts @ '']''"

definition db_first :: database where
  "db_first = save_to_database plain_digest dumps_stub rc_first setup_database"

definition db_rewritten :: database where
  "db_rewritten = save_to_database plain_digest dumps_stub rc_rewritten db_first"

text \<open>A database of three rows, two of them with the same name, and a \<open>LIKE\<close> that selects every row.\<close>

definition like_any :: like_fn where
  "like_any t pattern = True"

definition json_db :: database where
  "json_db =
     \<lparr>repo_index = [(1, slowjson_row), (2, fastjson_row), (3, fastjson_row\<lparr>full_name := ''other/fastjson''\<rparr>)],
      repo_fts = map fts_row [(1, slowjson_row), (2, fastjson_row), (3, fastjson_row\<lparr>full_name := ''other/fastjson''\<rparr>)],
      recursive_triggers = False\<rparr>"

text \<open>A full-text engine that raises on every query, and a database of one row.\<close>

definition fts_fails :: fts_match_fn where
  "fts_fails idx expr = None"


section \<open>Properties of the scoring loops\<close>

lemma word_score_nonneg: "0 \<le> word_score ratio q t"
  by (simp add: word_score_def Let_def)

lemma best_match_Max:
  "fst (best_match ratio q ts (b, m)) = Max (insert b (word_score ratio q ` set ts))"
proof (induction ts arbitrary: b m)
  case Nil
  then show ?case by simp
next
  case (Cons t ts)
  let ?x = "word_score ratio q t"
  let ?A = "insert ?x (word_score ratio q ` set ts)"
  have A: "finite ?A" "?A \<noteq> {}" by simp_all
  have x_le: "?x \<le> Max ?A" using A by (simp add: Max_ge)
  have split: "Max (insert b ?A) = max b (Max ?A)" using A by (rule Max_insert)
  show ?case
  proof (cases "?x > b")
    case True
    then have "b \<le> Max ?A" using x_le by linarith
    then have "max b (Max ?A) = Max ?A" by (rule max_absorb2)
    then have "Max (insert b ?A) = Max ?A" using split by (simp only:)
    with True Cons.IH [of ?x "Some t"] show ?thesis
      by (simp add: Let_def)
  next
    case False
    have "insert b ?A = insert ?x (insert b (word_score ratio q ` set ts))" by auto
    moreover have "Max (insert ?x (insert b (word_score ratio q ` set ts)))
             = max ?x (Max (insert b (word_score ratio q ` set ts)))"
      by (rule Max_insert) simp_all
    moreover have "b \<le> Max (insert b (word_score ratio q ` set ts))"
      by (simp add: Max_ge)
    moreover have "?x \<le> Max (insert b (word_score ratio q ` set ts))"
      using False \<open>b \<le> Max (insert b (word_score ratio q ` set ts))\<close> by linarith
    ultimately have "Max (insert b ?A) = Max (insert b (word_score ratio q ` set ts))"
      by (simp only: max_absorb2)
    with False Cons.IH [of b m] show ?thesis
      by (simp add: Let_def)
  qed
qed

lemma best_match_nonneg: "0 \<le> fst (best_match ratio q ts (0, None))"
  by (simp add: best_match_Max)

lemma best_match_Max_words:
  assumes "ts \<noteq> []"
  shows "fst (best_match ratio q ts (0, None)) = Max (word_score ratio q ` set ts)"
proof -
  let ?S = "word_score ratio q ` set ts"
  have ne: "?S \<noteq> {}" and fin: "finite ?S" using assms by simp_all
  have "0 \<le> Max ?S"
    using ne fin word_score_nonneg by (metis Max_in imageE)
  then have "Max (insert 0 ?S) = Max ?S"
    using ne fin by (simp add: max_def)
  then show ?thesis by (simp add: best_match_Max)
qed

lemma sum_matches_total:
  "fst (sum_matches ratio tws qs (t, ms)) =
     t + (\<Sum>q\<leftarrow>qs. fst (best_match ratio q tws (0, None)))"
proof (induction qs arbitrary: t ms)
  case Nil
  then show ?case by simp
next
  case (Cons q qs)
  obtain bs bm where bm: "best_match ratio q tws (0, None) = (bs, bm)"
    by (cases "best_match ratio q tws (0, None)")
  have "0 \<le> bs" using best_match_nonneg [of ratio q tws] bm by simp
  then show ?case using Cons.IH bm by (cases "bs > 0") auto
qed

lemma similarity_formula:
  assumes "query_words \<noteq> []" "extract_keywords text \<noteq> []"
  shows "fst (calculate_text_similarity ratio query_words text) =
           (\<Sum>q\<leftarrow>query_words. Max (word_score ratio q ` set (extract_keywords text)))
             / real (length query_words)"
proof -
  have "text \<noteq> []" using assms(2) by (auto simp: extract_keywords_def)
  then show ?thesis using assms
    by (simp add: calculate_text_similarity_def Let_def split_beta sum_matches_total
        best_match_Max_words)
qed

lemma similarity_no_words:
  "extract_keywords text = [] \<Longrightarrow> fst (calculate_text_similarity ratio query_words text) = 0"
  by (simp add: calculate_text_similarity_def Let_def)

lemma similarity_empty_text:
  "fst (calculate_text_similarity ratio query_words []) = 0"
  by (simp add: calculate_text_similarity_def)

lemma similarity_nonneg: "0 \<le> fst (calculate_text_similarity ratio query_words text)"
proof -
  have "0 \<le> (\<Sum>q\<leftarrow>query_words. fst (best_match ratio q tws (0, None)))" for tws
    by (rule sum_list_nonneg) (auto simp: best_match_nonneg)
  then show ?thesis
    by (simp add: calculate_text_similarity_def Let_def split_beta sum_matches_total)
qed

lemma score_fields_acc:
  "score_fields ratio jl r qw fws (t, m, s) =
     (t + (\<Sum>(f, w)\<leftarrow>fws. field_similarity ratio jl r qw f * w),
      m @ filter (\<lambda>f. field_similarity ratio jl r qw f > 0) (map fst fws),
      s @ map (\<lambda>f. (f, extract_snippet (field_text jl r f) qw 200))
            (filter (\<lambda>f. field_similarity ratio jl r qw f > 0 \<and> (f = ''description'' \<or> f = ''readme_content''))
               (map fst fws)))"
proof (induction fws arbitrary: t m s)
  case Nil
  then show ?case by simp
next
  case (Cons fw fws)
  obtain f w where fw: "fw = (f, w)" by (cases fw)
  show ?case
  proof (cases "field_text jl r f = []")
    case True
    then have "field_similarity ratio jl r qw f = 0"
      by (simp add: field_similarity_def similarity_empty_text)
    then show ?thesis using True fw Cons.IH by simp
  next
    case False
    obtain sim ms where cs: "calculate_text_similarity ratio qw (field_text jl r f) = (sim, ms)"
      by (cases "calculate_text_similarity ratio qw (field_text jl r f)")
    then have fs: "field_similarity ratio jl r qw f = sim"
      by (simp add: field_similarity_def)
    have "0 \<le> sim" using similarity_nonneg [of ratio qw "field_text jl r f"] cs by simp
    then show ?thesis using False fw cs fs Cons.IH
      by (cases "sim > 0") (simp_all add: Let_def)
  qed
qed


lemma relevance_sum:
  "relevance ratio jl r qw = (\<Sum>(f, w)\<leftarrow>fields_weights. field_similarity ratio jl r qw f * w)"
  by (simp add: relevance_def score_fields_acc)

lemma score_repository_formula:
  assumes "extract_keywords (normalize_query query) = qw" "qw \<noteq> []"
    and "popularity_boost (stars r) = Inr b"
  shows "score_repository ratio jl r query =
           Inr \<lparr>repo = r,
                score = (if archived r then (relevance ratio jl r qw + b) * 0.7
                         else relevance ratio jl r qw + b),
                matched_fields =
                  filter (\<lambda>f. field_similarity ratio jl r qw f > 0) (map fst fields_weights),
                snippets =
                  map (\<lambda>f. (f, extract_snippet (field_text jl r f) qw 200))
                    (filter (\<lambda>f. field_similarity ratio jl r qw f > 0
                                \<and> (f = ''description'' \<or> f = ''readme_content''))
                       (map fst fields_weights))\<rparr>"
  using assms
  by (simp add: score_repository_def Let_def score_fields_acc relevance_def)

lemma popularity_boost_value:
  assumes "0 \<le> st"
  shows "popularity_boost st = Inr (min (log 10 (real_of_int st + 1) * 0.1) 0.5)"
  using assms by (simp add: popularity_boost_def)

lemma boost_nonneg:
  assumes "0 \<le> st"
  shows "0 \<le> min (log 10 (real_of_int st + 1) * 0.1) (0.5::real)"
proof -
  have "0 \<le> log 10 (real_of_int st + 1)" using assms by simp
  then show ?thesis by simp
qed

lemma boost_linear:
  assumes "0 \<le> st"
  shows "min (log 10 (real_of_int st + 1) * 0.1) (0.5::real) \<le> real_of_int st / 10"
proof -
  have x: "0 \<le> real_of_int st" using assms by simp
  have "ln (1 + real_of_int st) \<le> real_of_int st" using x by (rule ln_add_one_self_le_self)
  moreover have "0 \<le> ln (1 + real_of_int st)" using x by simp
  moreover have "(1::real) \<le> ln 10" using ln_ge_iff [of 10 1] exp_le by simp
  ultimately have "ln (1 + real_of_int st) / ln 10 \<le> real_of_int st"
    by (smt (verit) divide_le_eq_1 frac_le div_by_1)
  then have "log 10 (real_of_int st + 1) \<le> real_of_int st"
    by (simp add: log_def add.commute)
  then show ?thesis by simp
qed

lemma field_similarity_nonneg: "0 \<le> field_similarity ratio jl r qw f"
  by (simp add: field_similarity_def similarity_nonneg)

lemma relevance_nonneg: "0 \<le> relevance ratio jl r qw"
  using field_similarity_nonneg [of ratio jl r qw "''name''"]
    field_similarity_nonneg [of ratio jl r qw "''full_name''"]
    field_similarity_nonneg [of ratio jl r qw "''description''"]
    field_similarity_nonneg [of ratio jl r qw "''readme_content''"]
    field_similarity_nonneg [of ratio jl r qw "''topics''"]
  by (simp add: relevance_sum fields_weights_def)

lemma score_repository_total:
  assumes "0 \<le> stars r"
  shows "\<exists>res. score_repository ratio jl r query = Inr res"
  using assms
  by (simp add: score_repository_def Let_def popularity_boost_def split_beta)

lemma extract_keywords_empty_iff:
  "extract_keywords t = [] \<longleftrightarrow>
     t = [] \<or> (\<forall>w\<in>set (word_runs (lower t)). length w < 3 \<or> w \<in> set stop_words)"
  by (auto simp: extract_keywords_def findall_w3_def filter_empty_conv)

section \<open>The example data, evaluated\<close>

lemma kw_fastjson: "extract_keywords (normalize_query ''fastjson'') = [''fastjson'']"
  by code_simp

lemma kw_name: "extract_keywords ''fastjson'' = [''fastjson'']"
  by code_simp

lemma kw_full: "extract_keywords ''acme/fastjson'' = [''acme'', ''fastjson'']"
  by code_simp

lemma kw_desc: "extract_keywords ''A fast JSON parser'' = [''fast'', ''json'', ''parser'']"
  by code_simp

lemma kw_stop: "extract_keywords (normalize_query ''The and of it!'') = []"
  by code_simp

lemma log10_1000: "log 10 1000 = (3::real)"
proof -
  have "log 10 ((10::real) ^ 3) = real 3 * log 10 10" by (rule log_nat_power) simp
  then show ?thesis by simp
qed

lemma pb999: "popularity_boost 999 = Inr (3/10)"
  by (simp add: popularity_boost_def log10_1000)

lemma ws_fast: "word_score no_ratio ''fastjson'' ''fast'' = 0.8"
  by (simp add: word_score_def)

lemma ws_json: "word_score no_ratio ''fastjson'' ''json'' = 0.8"
  by (simp add: word_score_def)

lemma ws_parser: "word_score no_ratio ''fastjson'' ''parser'' = 0"
  by (simp add: word_score_def no_ratio_def)

lemma ws_acme: "word_score no_ratio ''fastjson'' ''acme'' = 0"
  by (simp add: word_score_def no_ratio_def)

lemma ws_same: "word_score no_ratio ''fastjson'' ''fastjson'' = 1"
  by (simp add: word_score_def)

lemma sim_desc:
  "calculate_text_similarity no_ratio [''fastjson''] ''A fast JSON parser'' = (0.8, [''fast''])"
  by (simp add: calculate_text_similarity_def kw_desc ws_fast ws_json ws_parser Let_def)

lemma sim_name:
  "calculate_text_similarity no_ratio [''fastjson''] ''fastjson'' = (1, [''fastjson''])"
  by (simp add: calculate_text_similarity_def kw_name ws_same Let_def)

lemma sim_full:
  "calculate_text_similarity no_ratio [''fastjson''] ''acme/fastjson'' = (1, [''fastjson''])"
  by (simp add: calculate_text_similarity_def kw_full ws_acme ws_same Let_def)

lemma snip_desc: "extract_snippet ''A fast JSON parser'' [''fastjson''] 200 = ''A fast JSON parser''"
  by code_simp

lemma field_text_fastjson:
  "field_text loads_empty fastjson_row ''name'' = ''fastjson''"
  "field_text loads_empty fastjson_row ''full_name'' = ''acme/fastjson''"
  "field_text loads_empty fastjson_row ''description'' = ''A fast JSON parser''"
  "field_text loads_empty fastjson_row ''readme_content'' = []"
  "field_text loads_empty fastjson_row ''topics'' = []"
  by (simp_all add: field_text_def column_def fastjson_row_def loads_empty_def)

lemma fastjson_stars: "stars fastjson_row = 999" "archived fastjson_row = False"
  by (simp_all add: fastjson_row_def)

lemma score_fastjson:
  "score_repository no_ratio loads_empty fastjson_row ''fastjson'' =
     Inr \<lparr>repo = fastjson_row, score = 74/10,
          matched_fields = [''name'', ''full_name'', ''description''],
          snippets = [(''description'', ''A fast JSON parser'')]\<rparr>"
  by (simp add: score_repository_def kw_fastjson fields_weights_def Let_def field_text_fastjson
      sim_name sim_full sim_desc snip_desc pb999 fastjson_stars)

lemma relevance_fastjson: "relevance no_ratio loads_empty fastjson_row [''fastjson''] = 71/10"
  by (simp add: relevance_def fields_weights_def Let_def field_text_fastjson
      sim_name sim_full sim_desc)

section \<open>Claims about scoring\<close>

text \<open>
  C7. Bounded popularity boost: for a row with non-negative \<open>stars\<close> the additive
  popularity term is \<open>min(log10(stars + 1) * 0.1, 0.5)\<close>; it lies between 0 and 0.5 and
  below \<open>stars / 10\<close>. For a query with keywords the score of the row is its relevance
  (the weighted sum of the field similarities) plus this term, times 0.7 when the row is
  archived; so the score exceeds the relevance by at most 0.5.
\<close>

theorem popularity_boost_bounded:
  assumes "0 \<le> stars r"
  shows "\<exists>b res. popularity_boost (stars r) = Inr b
           \<and> b = min (log 10 (real_of_int (stars r) + 1) * 0.1) 0.5
           \<and> 0 \<le> b \<and> b \<le> 0.5 \<and> b \<le> real_of_int (stars r) / 10
           \<and> score_repository ratio jl r query = Inr res
           \<and> score res \<le> relevance ratio jl r (extract_keywords (normalize_query query)) + 0.5
           \<and> (extract_keywords (normalize_query query) \<noteq> [] \<longrightarrow>
                 score res =
                   (if archived r
                    then (relevance ratio jl r (extract_keywords (normalize_query query)) + b) * 0.7
                    else relevance ratio jl r (extract_keywords (normalize_query query)) + b))"
proof -
  let ?b = "min (log 10 (real_of_int (stars r) + 1) * 0.1) (0.5::real)"
  let ?qw = "extract_keywords (normalize_query query)"
  have pb: "popularity_boost (stars r) = Inr ?b" using assms by (rule popularity_boost_value)
  have b0: "0 \<le> ?b" using assms by (rule boost_nonneg)
  have b5: "?b \<le> 0.5" by simp
  have bl: "?b \<le> real_of_int (stars r) / 10" using assms by (rule boost_linear)
  have rel: "0 \<le> relevance ratio jl r ?qw" by (rule relevance_nonneg)
  obtain res where res: "score_repository ratio jl r query = Inr res"
    using score_repository_total [OF assms] by blast
  have sc: "score res = (if archived r then (relevance ratio jl r ?qw + ?b) * 0.7
                         else relevance ratio jl r ?qw + ?b)" if "?qw \<noteq> []"
    using score_repository_formula [OF refl that pb, of ratio jl] res by auto
  have le: "score res \<le> relevance ratio jl r ?qw + 0.5"
  proof (cases "?qw = []")
    case True
    then have "score res = 0" using res by (auto simp: score_repository_def Let_def)
    then show ?thesis using rel by simp
  next
    case False
    then show ?thesis using sc rel b0 b5 by (auto split: if_splits)
  qed
  have "popularity_boost (stars r) = Inr ?b
           \<and> ?b = min (log 10 (real_of_int (stars r) + 1) * 0.1) 0.5
           \<and> 0 \<le> ?b \<and> ?b \<le> 0.5 \<and> ?b \<le> real_of_int (stars r) / 10
           \<and> score_repository ratio jl r query = Inr res
           \<and> score res \<le> relevance ratio jl r ?qw + 0.5
           \<and> (?qw \<noteq> [] \<longrightarrow>
                 score res = (if archived r then (relevance ratio jl r ?qw + ?b) * 0.7
                              else relevance ratio jl r ?qw + ?b))"
    using pb b0 b5 bl res le sc by blast
  then show ?thesis by blast
qed

theorem popularity_boost_bounded_witness:
  "0 \<le> stars fastjson_row
   \<and> extract_keywords (normalize_query ''fastjson'') \<noteq> []
   \<and> popularity_boost (stars fastjson_row) = Inr (3/10)
   \<and> (3/10::real) = min (log 10 (real_of_int (stars fastjson_row) + 1) * 0.1) 0.5
   \<and> (\<exists>res. score_repository no_ratio loads_empty fastjson_row ''fastjson'' = Inr res
          \<and> score res = relevance no_ratio loads_empty fastjson_row
                            (extract_keywords (normalize_query ''fastjson'')) + 3/10
          \<and> relevance no_ratio loads_empty fastjson_row
               (extract_keywords (normalize_query ''fastjson'')) = 71/10
          \<and> score res = 74/10)"
proof -
  have h: "0 \<le> stars fastjson_row" by (simp add: fastjson_stars)
  have k: "extract_keywords (normalize_query ''fastjson'') \<noteq> []" by (simp add: kw_fastjson)
  obtain b res where pb: "popularity_boost (stars fastjson_row) = Inr b"
    and bm: "b = min (log 10 (real_of_int (stars fastjson_row) + 1) * 0.1) 0.5"
    and res: "score_repository no_ratio loads_empty fastjson_row ''fastjson'' = Inr res"
    and sc: "score res =
               (if archived fastjson_row
                then (relevance no_ratio loads_empty fastjson_row
                        (extract_keywords (normalize_query ''fastjson'')) + b) * 0.7
                else relevance no_ratio loads_empty fastjson_row
                       (extract_keywords (normalize_query ''fastjson'')) + b)"
    using popularity_boost_bounded [OF h, of no_ratio loads_empty "''fastjson''"] k by blast
  have b: "b = 3/10" using pb by (simp add: fastjson_stars pb999)
  have rel: "relevance no_ratio loads_empty fastjson_row
               (extract_keywords (normalize_query ''fastjson'')) = 71/10"
    by (simp add: kw_fastjson relevance_fastjson)
  have s1: "score res = relevance no_ratio loads_empty fastjson_row
                            (extract_keywords (normalize_query ''fastjson'')) + 3/10"
    using sc b by (simp add: fastjson_stars)
  have s2: "score res = 74/10" using s1 rel by simp
  have "\<exists>res. score_repository no_ratio loads_empty fastjson_row ''fastjson'' = Inr res
          \<and> score res = relevance no_ratio loads_empty fastjson_row
                            (extract_keywords (normalize_query ''fastjson'')) + 3/10
          \<and> relevance no_ratio loads_empty fastjson_row
               (extract_keywords (normalize_query ''fastjson'')) = 71/10
          \<and> score res = 74/10"
    using res s1 rel s2 by blast
  moreover have "popularity_boost (stars fastjson_row) = Inr (3/10)" using pb b by simp
  moreover have "(3/10::real) = min (log 10 (real_of_int (stars fastjson_row) + 1) * 0.1) 0.5"
    using bm b by simp
  ultimately show ?thesis using h k by blast
qed

text \<open>
  C10. Zero-keyword short-circuit: when the normalised query yields no keyword, the result
  of scoring a row is score 0 with no matched field and no snippet, whatever the row's
  \<open>stars\<close> and \<open>archived\<close> are: neither the boost nor the penalty is applied.
\<close>

theorem zero_keywords_score_zero:
  assumes "extract_keywords (normalize_query query) = []"
  shows "score_repository ratio jl r query =
           Inr \<lparr>repo = r, score = 0, matched_fields = [], snippets = []\<rparr>"
  using assms by (simp add: score_repository_def)

theorem zero_keywords_score_zero_witness:
  "extract_keywords (normalize_query ''The and of it!'') = []
   \<and> stars slowjson_row = 9 \<and> archived slowjson_row
   \<and> score_repository no_ratio loads_empty slowjson_row ''The and of it!'' =
       Inr \<lparr>repo = slowjson_row, score = 0, matched_fields = [], snippets = []\<rparr>"
  using zero_keywords_score_zero [OF kw_stop, of no_ratio loads_empty slowjson_row] kw_stop
  by (simp add: slowjson_row_def)

lemma field_text_archived: "field_text jl (r\<lparr>archived := x\<rparr>) f = field_text jl r f"
  by (simp add: field_text_def column_def)

lemma field_similarity_archived:
  "field_similarity ratio jl (r\<lparr>archived := x\<rparr>) qw f = field_similarity ratio jl r qw f"
  by (simp add: field_similarity_def field_text_archived)

lemma relevance_archived: "relevance ratio jl (r\<lparr>archived := x\<rparr>) qw = relevance ratio jl r qw"
  by (simp add: relevance_sum field_similarity_archived)

text \<open>
  C6. Archival penalty: two rows that differ only in \<open>archived\<close> are scored alike up to
  the factor: scoring the archived row raises exactly when scoring the other one does, and
  otherwise gives the same result with 0.7 times the score. For a query with keywords the
  factor multiplies the sum of relevance and popularity boost, so the boost is scaled too.
\<close>

theorem archival_penalty:
  "score_repository ratio jl (r\<lparr>archived := True\<rparr>) query =
     (case score_repository ratio jl (r\<lparr>archived := False\<rparr>) query of
        Inl e \<Rightarrow> Inl e
      | Inr a \<Rightarrow> Inr (a\<lparr>repo := r\<lparr>archived := True\<rparr>, score := 0.7 * score a\<rparr>))
   \<and> (extract_keywords (normalize_query query) \<noteq> [] \<longrightarrow> popularity_boost (stars r) = Inr b \<longrightarrow>
        (\<exists>a. score_repository ratio jl (r\<lparr>archived := False\<rparr>) query = Inr a
            \<and> score a = relevance ratio jl r (extract_keywords (normalize_query query)) + b)
      \<and> (\<exists>a. score_repository ratio jl (r\<lparr>archived := True\<rparr>) query = Inr a
            \<and> score a = 0.7 * (relevance ratio jl r (extract_keywords (normalize_query query)) + b)))"
proof (intro conjI impI)
  show "score_repository ratio jl (r\<lparr>archived := True\<rparr>) query =
     (case score_repository ratio jl (r\<lparr>archived := False\<rparr>) query of
        Inl e \<Rightarrow> Inl e
      | Inr a \<Rightarrow> Inr (a\<lparr>repo := r\<lparr>archived := True\<rparr>, score := 0.7 * score a\<rparr>))"
    by (simp add: score_repository_def Let_def score_fields_acc field_similarity_archived
        field_text_archived split: sum.splits)
next
  assume qw: "extract_keywords (normalize_query query) \<noteq> []"
    and pb: "popularity_boost (stars r) = Inr b"
  have pbF: "popularity_boost (stars (r\<lparr>archived := False\<rparr>)) = Inr b" using pb by simp
  have pbT: "popularity_boost (stars (r\<lparr>archived := True\<rparr>)) = Inr b" using pb by simp
  show "\<exists>a. score_repository ratio jl (r\<lparr>archived := False\<rparr>) query = Inr a
            \<and> score a = relevance ratio jl r (extract_keywords (normalize_query query)) + b"
    using score_repository_formula [OF refl qw pbF, of ratio jl]
    by (simp add: relevance_archived)
  show "\<exists>a. score_repository ratio jl (r\<lparr>archived := True\<rparr>) query = Inr a
            \<and> score a = 0.7 * (relevance ratio jl r (extract_keywords (normalize_query query)) + b)"
    using score_repository_formula [OF refl qw pbT, of ratio jl]
    by (simp add: relevance_archived)
qed

lemma fastjson_unarchived: "fastjson_row\<lparr>archived := False\<rparr> = fastjson_row"
  by (simp add: fastjson_row_def)

theorem archival_penalty_witness:
  "extract_keywords (normalize_query ''fastjson'') \<noteq> []
   \<and> popularity_boost (stars fastjson_row) = Inr (3/10)
   \<and> (\<exists>a. score_repository no_ratio loads_empty (fastjson_row\<lparr>archived := False\<rparr>) ''fastjson'' = Inr a
          \<and> score a = 74/10)
   \<and> (\<exists>a. score_repository no_ratio loads_empty (fastjson_row\<lparr>archived := True\<rparr>) ''fastjson'' = Inr a
          \<and> score a = 0.7 * (74/10))"
proof -
  have h1: "extract_keywords (normalize_query ''fastjson'') \<noteq> []" by (simp add: kw_fastjson)
  have h2: "popularity_boost (stars fastjson_row) = Inr (3/10)" by (simp add: fastjson_stars pb999)
  have "(\<exists>a. score_repository no_ratio loads_empty (fastjson_row\<lparr>archived := False\<rparr>) ''fastjson'' = Inr a
            \<and> score a = relevance no_ratio loads_empty fastjson_row
                          (extract_keywords (normalize_query ''fastjson'')) + 3/10)
      \<and> (\<exists>a. score_repository no_ratio loads_empty (fastjson_row\<lparr>archived := True\<rparr>) ''fastjson'' = Inr a
            \<and> score a = 0.7 * (relevance no_ratio loads_empty fastjson_row
                                 (extract_keywords (normalize_query ''fastjson'')) + 3/10))"
    using h1 h2 archival_penalty [of no_ratio loads_empty fastjson_row "''fastjson''" "3/10"]
    by blast
  then show ?thesis
    using h1 h2 by (simp add: kw_fastjson relevance_fastjson)
qed

text \<open>
  C4. Per-field fuzzy scoring: a word pair scores 1 on equality, 0.8 on containment in
  either direction, and otherwise the edit ratio with values below 0.6 set to 0; a query
  keyword's best score is the maximum of these over the field's words (the keywords that
  \<open>extract_keywords\<close> finds in the field's text); the field similarity is the sum of the best
  scores divided by the number of query keywords, and 0 for a field without words; a field is in
  \<open>matched_fields\<close> iff its similarity is positive; the relevance is the sum of the
  similarities weighted 3, 2.5, 2, 1.5 and 2.5, and the score adds the boost and applies
  the penalty to it.
\<close>

theorem fuzzy_scoring_formula:
  assumes qw: "query_words \<noteq> []"
    and kw: "extract_keywords (normalize_query query) = query_words"
    and st: "0 \<le> stars r"
  shows "(\<forall>q t. word_score ratio q t =
             (if q = t then 1
              else if str_in q t \<or> str_in t q then 0.8
              else if ratio q t < 0.6 then 0 else ratio q t))
    \<and> (\<forall>q tws. tws \<noteq> [] \<longrightarrow>
          fst (best_match ratio q tws (0, None)) = Max (word_score ratio q ` set tws))
    \<and> (\<forall>text. extract_keywords text \<noteq> [] \<longrightarrow>
          fst (calculate_text_similarity ratio query_words text) =
            (\<Sum>q\<leftarrow>query_words. Max (word_score ratio q ` set (extract_keywords text)))
              / real (length query_words))
    \<and> (\<forall>text. extract_keywords text = [] \<longrightarrow>
          fst (calculate_text_similarity ratio query_words text) = 0)
    \<and> (\<exists>res b. score_repository ratio jl r query = Inr res
          \<and> popularity_boost (stars r) = Inr b
          \<and> (\<forall>field. field \<in> set (matched_fields res) \<longleftrightarrow>
                 field \<in> set (map fst fields_weights)
                 \<and> 0 < field_similarity ratio jl r query_words field)
          \<and> relevance ratio jl r query_words =
                3 * field_similarity ratio jl r query_words ''name''
              + 5/2 * field_similarity ratio jl r query_words ''full_name''
              + 2 * field_similarity ratio jl r query_words ''description''
              + 3/2 * field_similarity ratio jl r query_words ''readme_content''
              + 5/2 * field_similarity ratio jl r query_words ''topics''
          \<and> score res = (if archived r then (relevance ratio jl r query_words + b) * 0.7
                          else relevance ratio jl r query_words + b))"
proof (intro conjI allI impI)
  fix q t :: string
  show "word_score ratio q t =
             (if q = t then 1
              else if str_in q t \<or> str_in t q then 0.8
              else if ratio q t < 0.6 then 0 else ratio q t)"
    by (simp add: word_score_def Let_def)
next
  fix q :: string and tws :: "string list" assume "tws \<noteq> []"
  then show "fst (best_match ratio q tws (0, None)) = Max (word_score ratio q ` set tws)"
    by (rule best_match_Max_words)
next
  fix s :: string assume "extract_keywords s \<noteq> []"
  with qw show "fst (calculate_text_similarity ratio query_words s) =
            (\<Sum>q\<leftarrow>query_words. Max (word_score ratio q ` set (extract_keywords s)))
              / real (length query_words)"
    by (rule similarity_formula)
next
  fix s :: string assume "extract_keywords s = []"
  then show "fst (calculate_text_similarity ratio query_words s) = 0"
    by (rule similarity_no_words)
next
  let ?b = "min (log 10 (real_of_int (stars r) + 1) * 0.1) (0.5::real)"
  have pb: "popularity_boost (stars r) = Inr ?b" using st by (rule popularity_boost_value)
  note f = score_repository_formula [OF kw qw pb, of ratio jl]
  have rel: "relevance ratio jl r query_words =
                3 * field_similarity ratio jl r query_words ''name''
              + 5/2 * field_similarity ratio jl r query_words ''full_name''
              + 2 * field_similarity ratio jl r query_words ''description''
              + 3/2 * field_similarity ratio jl r query_words ''readme_content''
              + 5/2 * field_similarity ratio jl r query_words ''topics''"
    by (simp add: relevance_sum fields_weights_def)
  show "\<exists>res b. score_repository ratio jl r query = Inr res
          \<and> popularity_boost (stars r) = Inr b
          \<and> (\<forall>field. field \<in> set (matched_fields res) \<longleftrightarrow>
                 field \<in> set (map fst fields_weights)
                 \<and> 0 < field_similarity ratio jl r query_words field)
          \<and> relevance ratio jl r query_words =
                3 * field_similarity ratio jl r query_words ''name''
              + 5/2 * field_similarity ratio jl r query_words ''full_name''
              + 2 * field_similarity ratio jl r query_words ''description''
              + 3/2 * field_similarity ratio jl r query_words ''readme_content''
              + 5/2 * field_similarity ratio jl r query_words ''topics''
          \<and> score res = (if archived r then (relevance ratio jl r query_words + b) * 0.7
                          else relevance ratio jl r query_words + b)"
    (is "\<exists>res b. ?P res b")
  proof -
    obtain res where res: "score_repository ratio jl r query = Inr res"
      and mf: "matched_fields res =
                 filter (\<lambda>f. 0 < field_similarity ratio jl r query_words f) (map fst fields_weights)"
      and sc: "score res = (if archived r then (relevance ratio jl r query_words + ?b) * 0.7
                            else relevance ratio jl r query_words + ?b)"
      using f by simp
    have "?P res ?b"
      using res pb rel sc by (simp add: mf)
    then show ?thesis by blast
  qed
qed

lemma kw_short: "extract_keywords ''a b'' = []"
  by code_simp

theorem fuzzy_scoring_formula_witness:
  "[''fastjson''] \<noteq> []
   \<and> extract_keywords (normalize_query ''fastjson'') = [''fastjson'']
   \<and> 0 \<le> stars fastjson_row
   \<and> [''fast'', ''json'', ''parser''] \<noteq> []
   \<and> fst (best_match no_ratio ''fastjson'' [''fast'', ''json'', ''parser''] (0, None)) =
        Max (word_score no_ratio ''fastjson'' ` set [''fast'', ''json'', ''parser''])
   \<and> extract_keywords ''A fast JSON parser'' \<noteq> []
   \<and> fst (calculate_text_similarity no_ratio [''fastjson''] ''A fast JSON parser'') =
        (\<Sum>q\<leftarrow>[''fastjson'']. Max (word_score no_ratio q ` set (extract_keywords ''A fast JSON parser'')))
          / real (length [''fastjson''])
   \<and> fst (calculate_text_similarity no_ratio [''fastjson''] ''A fast JSON parser'') = 8/10
   \<and> extract_keywords ''a b'' = []
   \<and> fst (calculate_text_similarity no_ratio [''fastjson''] ''a b'') = 0
   \<and> (\<exists>res. score_repository no_ratio loads_empty fastjson_row ''fastjson'' = Inr res
          \<and> (''description'' \<in> set (matched_fields res) \<longleftrightarrow>
                ''description'' \<in> set (map fst fields_weights)
                \<and> 0 < field_similarity no_ratio loads_empty fastjson_row [''fastjson''] ''description'')
          \<and> ''description'' \<in> set (matched_fields res)
          \<and> ''topics'' \<notin> set (matched_fields res)
          \<and> score res = 74/10)"
proof -
  have h1: "[''fastjson''] \<noteq> []" by simp
  have h2: "extract_keywords (normalize_query ''fastjson'') = [''fastjson'']" by (rule kw_fastjson)
  have h3: "0 \<le> stars fastjson_row" by (simp add: fastjson_stars)
  have h4: "[''fast'', ''json'', ''parser''] \<noteq> []" by simp
  have h5: "extract_keywords ''A fast JSON parser'' \<noteq> []" by (simp add: kw_desc)
  note t = fuzzy_scoring_formula [OF h1 h2 h3, of no_ratio loads_empty]
  have a: "fst (best_match no_ratio ''fastjson'' [''fast'', ''json'', ''parser''] (0, None)) =
        Max (word_score no_ratio ''fastjson'' ` set [''fast'', ''json'', ''parser''])"
    using t h4 by blast
  have b: "fst (calculate_text_similarity no_ratio [''fastjson''] ''A fast JSON parser'') =
        (\<Sum>q\<leftarrow>[''fastjson'']. Max (word_score no_ratio q ` set (extract_keywords ''A fast JSON parser'')))
          / real (length [''fastjson''])"
    using t h5 by blast
  have c: "fst (calculate_text_similarity no_ratio [''fastjson''] ''a b'') = 0"
    using t kw_short by blast
  have d: "\<exists>res. score_repository no_ratio loads_empty fastjson_row ''fastjson'' = Inr res
          \<and> (''description'' \<in> set (matched_fields res) \<longleftrightarrow>
                ''description'' \<in> set (map fst fields_weights)
                \<and> 0 < field_similarity no_ratio loads_empty fastjson_row [''fastjson''] ''description'')"
    using t by blast
  have e: "fst (calculate_text_similarity no_ratio [''fastjson''] ''A fast JSON parser'') = 8/10"
    by (simp add: sim_desc)
  from d obtain res where r1: "score_repository no_ratio loads_empty fastjson_row ''fastjson'' = Inr res"
    and r2: "(''description'' \<in> set (matched_fields res) \<longleftrightarrow>
                ''description'' \<in> set (map fst fields_weights)
                \<and> 0 < field_similarity no_ratio loads_empty fastjson_row [''fastjson''] ''description'')"
    by blast
  have r3: "''description'' \<in> set (matched_fields res)" "''topics'' \<notin> set (matched_fields res)"
    "score res = 74/10"
    using r1 by (auto simp: score_fastjson)
  show ?thesis
    using h1 h2 h3 h4 h5 a b c e kw_short r1 r2 r3 by blast
qed

section \<open>Claims about the README cache\<close>

text \<open>
  C3. Cache freshness: for a cached README whose record's \<open>updated_at\<close> converts to a time,
  the cache check returns the cached text if and only if the file's modification time is
  strictly after that time. Then \<open>fetch_readme_content\<close> returns the cached text and
  leaves the cache alone; when the modification time is equal or earlier, the check is a
  miss and \<open>fetch_readme_content\<close> is the fetch from the remote.
\<close>

theorem cache_freshness:
  assumes "c (cache_file_name fn) = Some (cache_modified, cached)"
    and "parse_time upd = Inr repo_updated"
  shows "(cache_get parse_time c fn upd = Inr (Some cached) \<longleftrightarrow> cache_modified > repo_updated)
       \<and> (cache_modified \<le> repo_updated \<longrightarrow> cache_get parse_time c fn upd = Inr None)
       \<and> (cache_modified > repo_updated \<longrightarrow>
            fetch_readme_content parse_time http_get clean_markdown now c fn upd = Inr (cached, c))
       \<and> (cache_modified \<le> repo_updated \<longrightarrow>
            fetch_readme_content parse_time http_get clean_markdown now c fn upd =
              Inr (fetch_from_api http_get clean_markdown now c fn readme_files))"
  using assms by (simp add: cache_get_def fetch_readme_content_def)

lemma cache_file_name_fastjson: "cache_file_name ''acme/fastjson'' = ''acme_fastjson_readme.txt''"
  by code_simp

lemma fetch_fastjson:
  "fetch_from_api http1 id 300 cache1 ''acme/fastjson'' readme_files =
     (''fresh text'', cache1(''acme_fastjson_readme.txt'' \<mapsto> (300, ''fresh text'')))"
  by (simp add: readme_files_def http1_def cache_file_name_fastjson Let_def)

theorem cache_freshness_witness:
  "cache1 (cache_file_name ''acme/fastjson'') = Some (200, ''cached text'')
   \<and> parse100 ''2024-01-01T00:00:00Z'' = Inr 100 \<and> (200::int) > 100
   \<and> cache_get parse100 cache1 ''acme/fastjson'' ''2024-01-01T00:00:00Z'' = Inr (Some ''cached text'')
   \<and> fetch_readme_content parse100 http1 id 300 cache1 ''acme/fastjson'' ''2024-01-01T00:00:00Z''
        = Inr (''cached text'', cache1)
   \<and> parse200 ''2024-01-02T00:00:00Z'' = Inr 200 \<and> (200::int) \<le> 200
   \<and> cache_get parse200 cache1 ''acme/fastjson'' ''2024-01-02T00:00:00Z'' = Inr None
   \<and> fetch_readme_content parse200 http1 id 300 cache1 ''acme/fastjson'' ''2024-01-02T00:00:00Z''
        = Inr (''fresh text'', cache1(''acme_fastjson_readme.txt'' \<mapsto> (300, ''fresh text'')))"
proof -
  have h: "cache1 (cache_file_name ''acme/fastjson'') = Some (200, ''cached text'')"
    by (simp add: cache1_def cache_file_name_fastjson)
  have p1: "parse100 ''2024-01-01T00:00:00Z'' = Inr 100" by (simp add: parse100_def)
  have p2: "parse200 ''2024-01-02T00:00:00Z'' = Inr 200" by (simp add: parse200_def)
  note fresh = cache_freshness [where c = cache1 and fn = "''acme/fastjson''" and parse_time = parse100
      and upd = "''2024-01-01T00:00:00Z''" and http_get = http1 and clean_markdown = id and now = 300,
      OF h p1]
  note stale = cache_freshness [where c = cache1 and fn = "''acme/fastjson''" and parse_time = parse200
      and upd = "''2024-01-02T00:00:00Z''" and http_get = http1 and clean_markdown = id and now = 300,
      OF h p2]
  have a: "cache_get parse100 cache1 ''acme/fastjson'' ''2024-01-01T00:00:00Z'' = Inr (Some ''cached text'')"
    "fetch_readme_content parse100 http1 id 300 cache1 ''acme/fastjson'' ''2024-01-01T00:00:00Z''
        = Inr (''cached text'', cache1)"
    using fresh by simp_all
  have b: "cache_get parse200 cache1 ''acme/fastjson'' ''2024-01-02T00:00:00Z'' = Inr None"
    "fetch_readme_content parse200 http1 id 300 cache1 ''acme/fastjson'' ''2024-01-02T00:00:00Z''
        = Inr (fetch_from_api http1 id 300 cache1 ''acme/fastjson'' readme_files)"
    using stale by simp_all
  show ?thesis using h p1 p2 a b by (simp add: fetch_fastjson)
qed

section \<open>Claims about the store\<close>

lemma repo_index_fold_repo_ad: "repo_index (fold repo_ad xs db) = repo_index db"
  by (induction xs arbitrary: db) (simp_all add: repo_ad_def)

lemma repo_index_insert_or_replace:
  "repo_index (insert_or_replace new db) =
     filter (\<lambda>x. full_name (snd x) \<noteq> full_name new) (repo_index db)
       @ [(next_rowid (repo_index db), new)]"
  by (simp add: insert_or_replace_def Let_def repo_ai_def repo_index_fold_repo_ad)

lemma select_after_insert:
  "select_content_hash (insert_or_replace new db) (full_name new) = Some (content_hash new)"
proof -
  have "filter (\<lambda>x. full_name (snd x) = full_name new)
          (filter (\<lambda>x. full_name (snd x) \<noteq> full_name new) (repo_index db)) = []"
    by (simp add: filter_empty_conv)
  then show ?thesis
    by (simp add: select_content_hash_def repo_index_insert_or_replace)
qed

lemma select_after_save:
  "select_content_hash (save_to_database md5 jd a db) (rc_full_name a) = Some (get_content_hash md5 a)"
proof (cases "select_content_hash db (rc_full_name a) = Some (get_content_hash md5 a)")
  case True
  then show ?thesis by (simp add: save_to_database_def)
next
  case False
  let ?new = "\<lparr>full_name = rc_full_name a, name = rc_name a,
                 description = rc_description a, language = rc_language a,
                 stars = rc_stars a, updated_at = rc_updated_at a,
                 html_url = rc_html_url a, owner_login = rc_owner_login a,
                 owner_avatar = rc_owner_avatar a, archived = rc_archived a,
                 readme_content = rc_readme_content a, topics = jd (rc_topics a),
                 last_indexed = rc_last_indexed a, content_hash = get_content_hash md5 a\<rparr>"
  have "save_to_database md5 jd a db = insert_or_replace ?new db"
    using False by (simp add: save_to_database_def Let_def)
  then show ?thesis using select_after_insert [of ?new db] by simp
qed

text \<open>
  C2. Idempotent upsert gated by the fingerprint: the fingerprint depends on description,
  readme content and updated\_at only; an upsert of a record whose fingerprint is the stored
  \<open>content_hash\<close> of its key leaves the database as it is, table and index; so after a
  write of \<open>a\<close>, an upsert of any \<open>b\<close> with the same key and fingerprint changes nothing,
  whatever its \<open>stars\<close> and \<open>last_indexed\<close> are.
\<close>

theorem idempotent_upsert:
  "(rc_description a = rc_description b \<and> rc_readme_content a = rc_readme_content b
      \<and> rc_updated_at a = rc_updated_at b \<longrightarrow> get_content_hash digest a = get_content_hash digest b)
   \<and> (select_content_hash db (rc_full_name b) = Some (get_content_hash digest b) \<longrightarrow>
        save_to_database digest jd b db = db)
   \<and> (rc_full_name b = rc_full_name a \<and> get_content_hash digest b = get_content_hash digest a \<longrightarrow>
        save_to_database digest jd b (save_to_database digest jd a db) = save_to_database digest jd a db)"
proof (intro conjI impI)
  assume "rc_description a = rc_description b \<and> rc_readme_content a = rc_readme_content b
      \<and> rc_updated_at a = rc_updated_at b"
  then show "get_content_hash digest a = get_content_hash digest b"
    by (simp add: get_content_hash_def)
next
  assume "select_content_hash db (rc_full_name b) = Some (get_content_hash digest b)"
  then show "save_to_database digest jd b db = db"
    by (simp add: save_to_database_def)
next
  assume eq: "rc_full_name b = rc_full_name a \<and> get_content_hash digest b = get_content_hash digest a"
  have "select_content_hash (save_to_database digest jd a db) (rc_full_name b) =
          Some (get_content_hash digest b)"
    using select_after_save [of digest jd a db] eq by simp
  then show "save_to_database digest jd b (save_to_database digest jd a db) = save_to_database digest jd a db"
    by (simp add: save_to_database_def)
qed

lemma db_first_value:
  "db_first =
     \<lparr>repo_index = [(1, \<lparr>full_name = ''acme/fastjson'', name = ''fastjson'',
         description = ''A fast JSON parser'', language = ''Go'', stars = 999,
         updated_at = ''2024-01-01T00:00:00Z'', html_url = ''https://github.com/acme/fastjson'',
         owner_login = ''acme'', owner_avatar = [], archived = False, readme_content = [],
         topics = ''[]'', last_indexed = ''2024-02-01T00:00:00+00:00'',
         content_hash = ''A fast JSON parser2024-01-01T00:00:00Z''\<rparr>)],
      repo_fts = [(1, ''acme/fastjson'', ''fastjson'', ''A fast JSON parser'', [], ''[]'')],
      recursive_triggers = False\<rparr>"
  by (simp add: db_first_def save_to_database_def setup_database_def select_content_hash_def
      get_content_hash_def plain_digest_def dumps_stub_def rc_first_def insert_or_replace_def
      next_rowid_def repo_ai_def fts_row_def Let_def)

lemma restarred_fields:
  "rc_description rc_restarred = rc_description rc_first"
  "rc_readme_content rc_restarred = rc_readme_content rc_first"
  "rc_updated_at rc_restarred = rc_updated_at rc_first"
  "rc_full_name rc_restarred = rc_full_name rc_first"
  by (simp_all add: rc_restarred_def)

theorem idempotent_upsert_witness:
  "rc_description rc_first = rc_description rc_restarred
   \<and> rc_readme_content rc_first = rc_readme_content rc_restarred
   \<and> rc_updated_at rc_first = rc_updated_at rc_restarred
   \<and> rc_full_name rc_restarred = rc_full_name rc_first
   \<and> rc_stars rc_first = 999 \<and> rc_stars rc_restarred = 1500
   \<and> rc_last_indexed rc_restarred \<noteq> rc_last_indexed rc_first
   \<and> get_content_hash plain_digest rc_first = get_content_hash plain_digest rc_restarred
   \<and> select_content_hash db_first (rc_full_name rc_restarred) =
        Some (get_content_hash plain_digest rc_restarred)
   \<and> save_to_database plain_digest dumps_stub rc_restarred db_first = db_first
   \<and> save_to_database plain_digest dumps_stub rc_restarred
        (save_to_database plain_digest dumps_stub rc_first setup_database) =
       save_to_database plain_digest dumps_stub rc_first setup_database
   \<and> map (\<lambda>x. (stars (snd x), last_indexed (snd x)))
        (repo_index (save_to_database plain_digest dumps_stub rc_restarred db_first)) =
       [(999, ''2024-02-01T00:00:00+00:00'')]"
proof -
  have f: "rc_description rc_first = rc_description rc_restarred
     \<and> rc_readme_content rc_first = rc_readme_content rc_restarred
     \<and> rc_updated_at rc_first = rc_updated_at rc_restarred"
    by (simp add: restarred_fields)
  note t1 = idempotent_upsert [where a = rc_first and b = rc_restarred and digest = plain_digest
      and db = db_first and jd = dumps_stub]
  note t2 = idempotent_upsert [where a = rc_first and b = rc_restarred and digest = plain_digest
      and db = setup_database and jd = dumps_stub]
  have h: "get_content_hash plain_digest rc_first = get_content_hash plain_digest rc_restarred"
    using t1 f by blast
  have sel: "select_content_hash db_first (rc_full_name rc_restarred) =
        Some (get_content_hash plain_digest rc_restarred)"
    by (simp add: db_first_value select_content_hash_def get_content_hash_def plain_digest_def
        rc_restarred_def rc_first_def)
  have skip: "save_to_database plain_digest dumps_stub rc_restarred db_first = db_first"
    using t1 sel by blast
  have twice: "save_to_database plain_digest dumps_stub rc_restarred
        (save_to_database plain_digest dumps_stub rc_first setup_database) =
       save_to_database plain_digest dumps_stub rc_first setup_database"
    using t2 h restarred_fields(4) by simp
  have vals: "rc_stars rc_first = 999" "rc_stars rc_restarred = 1500"
    "rc_last_indexed rc_restarred \<noteq> rc_last_indexed rc_first"
    by (simp_all add: rc_restarred_def rc_first_def)
  have row: "map (\<lambda>x. (stars (snd x), last_indexed (snd x))) (repo_index db_first) =
       [(999, ''2024-02-01T00:00:00+00:00'')]"
    by (simp add: db_first_value)
  show ?thesis
    using f h sel skip twice vals row restarred_fields(4) by simp
qed

text \<open>
  C1. Shadow-index synchrony, at a replacement write. A first write of a repository into
  the fresh database leaves table and index in agreement. A second write of the same key
  with a changed description replaces the row: the table then holds one row, with rowid 2,
  and the index holds two entries, the one of rowid 1 with the replaced description among
  them. \<open>INSERT OR REPLACE\<close> deletes the old row without firing \<open>repo_ad\<close>, and no
  UPDATE fires \<open>repo_au\<close>.
\<close>

theorem replace_leaves_stale_index_entry:
  "in_sync db_first
   \<and> map fst (repo_index db_rewritten) = [2]
   \<and> map (\<lambda>x. description (snd x)) (repo_index db_rewritten) = [''A slow XML printer'']
   \<and> repo_fts db_rewritten =
        [(1, ''acme/fastjson'', ''fastjson'', ''A fast JSON parser'', [], ''[]''),
         (2, ''acme/fastjson'', ''fastjson'', ''A slow XML printer'', [], ''[]'')]
   \<and> length (repo_index db_rewritten) = 1 \<and> length (repo_fts db_rewritten) = 2
   \<and> \<not> in_sync db_rewritten"
proof -
  have v: "db_rewritten =
     \<lparr>repo_index = [(2, \<lparr>full_name = ''acme/fastjson'', name = ''fastjson'',
         description = ''A slow XML printer'', language = ''Go'', stars = 999,
         updated_at = ''2024-04-01T00:00:00Z'', html_url = ''https://github.com/acme/fastjson'',
         owner_login = ''acme'', owner_avatar = [], archived = False, readme_content = [],
         topics = ''[]'', last_indexed = ''2024-04-02T00:00:00+00:00'',
         content_hash = ''A slow XML printer2024-04-01T00:00:00Z''\<rparr>)],
      repo_fts = [(1, ''acme/fastjson'', ''fastjson'', ''A fast JSON parser'', [], ''[]''),
                  (2, ''acme/fastjson'', ''fastjson'', ''A slow XML printer'', [], ''[]'')],
      recursive_triggers = False\<rparr>"
    by (simp add: db_rewritten_def db_first_value save_to_database_def select_content_hash_def
        get_content_hash_def plain_digest_def dumps_stub_def rc_rewritten_def rc_first_def
        insert_or_replace_def next_rowid_def repo_ai_def fts_row_def Let_def)
  have a: "in_sync db_first" by (simp add: db_first_value in_sync_def fts_row_def)
  have b: "\<not> in_sync db_rewritten" by (simp add: v in_sync_def fts_row_def)
  show ?thesis using a b by (simp add: v)
qed

lemma in_sync_setup_database: "in_sync setup_database"
  by (simp add: in_sync_def setup_database_def)

lemma repo_fts_fold_repo_ad:
  "mset (repo_fts (fold repo_ad xs db)) = mset (repo_fts db) - mset (map fts_row xs)"
  by (induction xs arbitrary: db) (simp_all add: repo_ad_def)

lemma recursive_triggers_fold_repo_ad:
  "recursive_triggers (fold repo_ad xs db) = recursive_triggers db"
  by (induction xs arbitrary: db) (simp_all add: repo_ad_def)

lemma mset_rows_partition:
  "mset (map fts_row rows) =
     mset (map fts_row (filter (\<lambda>x. full_name (snd x) = k) rows))
     + mset (map fts_row (filter (\<lambda>x. full_name (snd x) \<noteq> k) rows))"
  by (induction rows) simp_all

lemma insert_or_replace_in_sync_recursive:
  assumes "recursive_triggers db" "in_sync db"
  shows "in_sync (insert_or_replace new db)"
proof -
  let ?k = "full_name new"
  have "mset (repo_fts db) - mset (map fts_row (filter (\<lambda>x. full_name (snd x) = ?k) (repo_index db)))
        = mset (map fts_row (filter (\<lambda>x. full_name (snd x) \<noteq> ?k) (repo_index db)))"
    using assms(2) mset_rows_partition [of "repo_index db" ?k] by (simp add: in_sync_def)
  then show ?thesis using assms(1)
    by (simp add: in_sync_def insert_or_replace_def Let_def repo_ai_def repo_fts_fold_repo_ad
        repo_index_fold_repo_ad)
qed

lemma insert_or_replace_in_sync_new_key:
  assumes "in_sync db" "select_content_hash db (full_name new) = None"
  shows "in_sync (insert_or_replace new db)"
proof -
  let ?k = "full_name new"
  have none: "filter (\<lambda>x. full_name (snd x) = ?k) (repo_index db) = []"
    using assms(2) by (simp add: select_content_hash_def split: list.splits)
  then have all: "filter (\<lambda>x. full_name (snd x) \<noteq> ?k) (repo_index db) = repo_index db"
    by (simp add: filter_empty_conv filter_id_conv)
  show ?thesis using assms(1) none all
    by (simp add: in_sync_def insert_or_replace_def Let_def repo_ai_def)
qed

lemma save_to_database_in_sync_recursive:
  assumes "recursive_triggers db" "in_sync db"
  shows "in_sync (save_to_database md5 jd rc db)"
  using assms by (simp add: save_to_database_def Let_def insert_or_replace_in_sync_recursive)

lemma save_to_database_in_sync_new_key:
  assumes "in_sync db" "select_content_hash db (rc_full_name rc) = None"
  shows "in_sync (save_to_database md5 jd rc db)"
  using assms by (simp add: save_to_database_def Let_def insert_or_replace_in_sync_new_key)

text \<open>
  With recursive triggers enabled the replacement would fire \<open>repo_ad\<close> and every write
  would keep table and index in agreement; with the default setting a write keeps them in
  agreement when the key is new.
\<close>

section \<open>Claims about suggestions\<close>

lemma slice_to_length: "0 \<le> n \<Longrightarrow> length (slice_to n xs) \<le> nat n"
  by (simp add: slice_to_def)

lemma set_add_distinct: "distinct xs \<Longrightarrow> distinct (set_add x xs)"
  by (simp add: set_add_def)

lemma fold_topics_distinct:
  "distinct s \<Longrightarrow>
   distinct (fold (\<lambda>topic s. if str_in q (lower topic) then set_add topic s else s) ts s)"
  by (induction ts arbitrary: s) (simp_all add: set_add_distinct)

lemma add_row_suggestions_distinct:
  "distinct s \<Longrightarrow> distinct (add_row_suggestions jl q x s)"
  by (auto simp: add_row_suggestions_def Let_def set_add_distinct fold_topics_distinct
      split: option.splits)

lemma fold_rows_distinct:
  "distinct s \<Longrightarrow> distinct (fold (add_row_suggestions jl q) rows s)"
  by (induction rows arbitrary: s) (simp_all add: add_row_suggestions_distinct)

lemma slice_to_distinct: "distinct xs \<Longrightarrow> distinct (slice_to n xs)"
  by (simp add: slice_to_def)

text \<open>
  C9. Short-query guard on suggestions: when the normalised partial query has fewer than
  two characters (the empty query and queries of punctuation among them),
  \<open>get_suggestions\<close> returns the empty list, whatever the database holds. In every case
  the result has no repeated string, and for a limit that is not negative it has at most
  \<open>limit\<close> strings.
\<close>

theorem suggestions_short_query_guard:
  "(length (normalize_query query) < 2 \<longrightarrow> get_suggestions like jl db query limit = [])
   \<and> (0 \<le> limit \<longrightarrow> length (get_suggestions like jl db query limit) \<le> nat limit)
   \<and> distinct (get_suggestions like jl db query limit)"
proof (intro conjI impI)
  assume "length (normalize_query query) < 2"
  then show "get_suggestions like jl db query limit = []"
    by (simp add: get_suggestions_def)
next
  assume "0 \<le> limit"
  then show "length (get_suggestions like jl db query limit) \<le> nat limit"
    by (simp add: get_suggestions_def Let_def slice_to_length)
next
  show "distinct (get_suggestions like jl db query limit)"
    by (simp add: get_suggestions_def Let_def slice_to_distinct fold_rows_distinct)
qed


lemma nq_punct: "normalize_query ''?!'' = []"
  by code_simp

lemma nq_a: "normalize_query '' A. '' = ''a''"
  by code_simp

lemma nq_json: "normalize_query ''JSON'' = ''json''"
  by code_simp

lemma sugg_json: "get_suggestions like_any loads_empty json_db ''JSON'' 10 = [''slowjson'', ''fastjson'']"
  by code_simp

lemma sugg_json1: "get_suggestions like_any loads_empty json_db ''JSON'' 1 = [''slowjson'']"
  by code_simp

theorem suggestions_short_query_guard_witness:
  "length (normalize_query ''?!'') < 2
   \<and> get_suggestions like_any loads_empty json_db ''?!'' 10 = []
   \<and> length (normalize_query '' A. '') < 2
   \<and> get_suggestions like_any loads_empty json_db '' A. '' 10 = []
   \<and> (0::int) \<le> 1
   \<and> length (get_suggestions like_any loads_empty json_db ''JSON'' 1) \<le> nat 1
   \<and> get_suggestions like_any loads_empty json_db ''JSON'' 1 = [''slowjson'']
   \<and> distinct (get_suggestions like_any loads_empty json_db ''JSON'' 10)
   \<and> get_suggestions like_any loads_empty json_db ''JSON'' 10 = [''slowjson'', ''fastjson'']"
proof -
  have h1: "length (normalize_query ''?!'') < 2" by (simp add: nq_punct)
  have h2: "length (normalize_query '' A. '') < 2" by (simp add: nq_a)
  have h3: "(0::int) \<le> 1" by simp
  have a: "get_suggestions like_any loads_empty json_db ''?!'' 10 = []"
    using suggestions_short_query_guard [of "''?!''" like_any loads_empty json_db 10] h1 by blast
  have b: "get_suggestions like_any loads_empty json_db '' A. '' 10 = []"
    using suggestions_short_query_guard [of "'' A. ''" like_any loads_empty json_db 10] h2 by blast
  have c: "length (get_suggestions like_any loads_empty json_db ''JSON'' 1) \<le> nat 1"
    using suggestions_short_query_guard [of "''JSON''" like_any loads_empty json_db 1] h3 by blast
  have d: "distinct (get_suggestions like_any loads_empty json_db ''JSON'' 10)"
    using suggestions_short_query_guard [of "''JSON''" like_any loads_empty json_db 10] by blast
  show ?thesis using h1 h2 h3 a b c d sugg_json sugg_json1 by simp
qed

section \<open>Claims about search\<close>

lemma insort_key_map:
  "insort_key f (h x) (map h ys) = map h (insort_key (\<lambda>y. f (h y)) x ys)"
  by (induction ys) simp_all

lemma sort_key_map:
  "sort_key f (map h xs) = map h (sort_key (\<lambda>y. f (h y)) xs)"
  by (induction xs) (simp_all add: insort_key_map)

lemma order_by_stars_desc_map:
  assumes "\<And>r. stars (g r) = stars r"
  shows "order_by_stars_desc (map (\<lambda>x. (fst x, g (snd x))) t) =
           map (\<lambda>x. (fst x, g (snd x))) (order_by_stars_desc t)"
  using assms by (simp add: order_by_stars_desc_def sort_key_map)

lemma sql_limit_map: "sql_limit n (map f xs) = map f (sql_limit n xs)"
  by (simp add: sql_limit_def take_map)

lemma order_by_stars_desc_sorted:
  "sorted_wrt (\<lambda>a b. stars (snd a) \<ge> stars (snd b)) (order_by_stars_desc t)"
proof -
  have "sorted (map (\<lambda>x. - stars (snd x)) (order_by_stars_desc t))"
    by (simp add: order_by_stars_desc_def)
  then show ?thesis by (simp add: sorted_map)
qed

lemma sorted_wrt_take_drop:
  assumes "sorted_wrt P xs"
  shows "\<forall>a\<in>set (take n xs). \<forall>b\<in>set (drop n xs). P a b"
proof -
  have "sorted_wrt P (take n xs @ drop n xs)" using assms by simp
  then show ?thesis unfolding sorted_wrt_append by blast
qed

lemma sorted_wrt_sql_limit: "sorted_wrt P xs \<Longrightarrow> sorted_wrt P (sql_limit n xs)"
  by (simp add: sql_limit_def sorted_wrt_take)

lemma sql_limit_rest:
  "mset xs - mset (sql_limit n xs) = mset (if n < 0 then [] else drop (nat n) xs)"
proof (cases "n < 0")
  case True
  then show ?thesis by (simp add: sql_limit_def)
next
  case False
  have "mset xs = mset (take (nat n) xs) + mset (drop (nat n) xs)"
    by (metis append_take_drop_id mset_append)
  then show ?thesis using False by (simp add: sql_limit_def)
qed

lemma get_all_repos_repo:
  "map repo (get_all_repos db limit) = map snd (sql_limit limit (order_by_stars_desc (repo_index db)))"
  by (simp add: get_all_repos_def comp_def)

lemma get_all_repos_fields:
  "\<forall>res\<in>set (get_all_repos db limit). score res = 0 \<and> matched_fields res = [] \<and> snippets res = []"
  by (auto simp: get_all_repos_def)

lemma get_all_repos_sorted:
  "sorted_wrt (\<lambda>a b. stars (repo a) \<ge> stars (repo b)) (get_all_repos db limit)"
proof -
  have "sorted_wrt (\<lambda>a b. stars (snd a) \<ge> stars (snd b))
          (sql_limit limit (order_by_stars_desc (repo_index db)))"
    by (rule sorted_wrt_sql_limit) (rule order_by_stars_desc_sorted)
  then show ?thesis by (simp add: get_all_repos_def sorted_wrt_map)
qed

lemma get_all_repos_length:
  "0 \<le> limit \<Longrightarrow> length (get_all_repos db limit) = min (nat limit) (length (repo_index db))"
  by (simp add: get_all_repos_def sql_limit_def order_by_stars_desc_def min.commute)

lemma get_all_repos_top:
  "\<forall>res\<in>set (get_all_repos db limit).
     \<forall>y\<in>#(mset (map snd (repo_index db)) - mset (map repo (get_all_repos db limit))).
       stars y \<le> stars (repo res)"
proof (intro ballI)
  let ?L = "order_by_stars_desc (repo_index db)"
  fix res y
  assume res: "res \<in> set (get_all_repos db limit)"
    and y: "y \<in># (mset (map snd (repo_index db)) - mset (map repo (get_all_repos db limit)))"
  have L: "mset ?L = mset (repo_index db)" by (simp add: order_by_stars_desc_def)
  show "stars y \<le> stars (repo res)"
  proof (cases "limit < 0")
    case True
    then have "map repo (get_all_repos db limit) = map snd ?L"
      by (simp add: get_all_repos_repo sql_limit_def)
    then have "mset (map snd (repo_index db)) - mset (map repo (get_all_repos db limit)) = {#}"
      using L by (metis cancel_comm_monoid_add_class.diff_cancel mset_map)
    with y show ?thesis by simp
  next
    case False
    let ?n = "nat limit"
    have split: "mset (map snd (repo_index db)) =
                   mset (map snd (take ?n ?L)) + mset (map snd (drop ?n ?L))"
      by (metis L append_take_drop_id map_append mset_append mset_map)
    have ret: "map repo (get_all_repos db limit) = map snd (take ?n ?L)"
      using False by (simp add: get_all_repos_repo sql_limit_def)
    have "y \<in> snd ` set (drop ?n ?L)" using y split ret by simp
    then obtain b where b: "b \<in> set (drop ?n ?L)" "y = snd b" by blast
    have "repo res \<in> set (map repo (get_all_repos db limit))" using res by simp
    then obtain a where a: "a \<in> set (take ?n ?L)" "repo res = snd a"
      unfolding ret by auto
    have "stars (snd b) \<le> stars (snd a)"
      using sorted_wrt_take_drop [OF order_by_stars_desc_sorted, of ?n "repo_index db"] a(1) b(1)
      by blast
    then show ?thesis using a(2) b(2) by simp
  qed
qed

lemma get_all_repos_text_independent:
  assumes "\<And>r. stars (g r) = stars r"
  shows "get_all_repos (db\<lparr>repo_index := map (\<lambda>x. (fst x, g (snd x))) (repo_index db)\<rparr>) limit =
           map (\<lambda>res. res\<lparr>repo := g (repo res)\<rparr>) (get_all_repos db limit)"
  using assms
  by (simp add: get_all_repos_def order_by_stars_desc_map sql_limit_map comp_def)

lemma search_browse:
  assumes "strip query = [] \<or> extract_keywords (normalize_query query) = []"
  shows "search ratio jl fts db query limit min_score = Inr (get_all_repos db limit)"
  using assms by (auto simp: search_def Let_def)

text \<open>
  C5. Browse mode: when the query is blank or its normalised form has no keyword,
  \<open>search\<close> returns \<open>get_all_repos\<close>: the first \<open>limit\<close> rows in the order of
  descending stars (all rows for a negative limit, as SQLite's LIMIT has it), each with
  score 0, no matched field and no snippet. The returned rows are in non-increasing order
  of stars, every row left out has at most the stars of every row returned, and changing
  the rows in any way that keeps their stars changes the returned rows in the same way and
  nothing else: the order does not depend on any text field.
\<close>

theorem browse_mode:
  assumes "strip query = [] \<or> extract_keywords (normalize_query query) = []"
  shows "search ratio jl fts db query limit min_score = Inr (get_all_repos db limit)
    \<and> (\<forall>res\<in>set (get_all_repos db limit).
          score res = 0 \<and> matched_fields res = [] \<and> snippets res = [])
    \<and> sorted_wrt (\<lambda>a b. stars (repo a) \<ge> stars (repo b)) (get_all_repos db limit)
    \<and> (0 \<le> limit \<longrightarrow> length (get_all_repos db limit) = min (nat limit) (length (repo_index db)))
    \<and> (\<forall>res\<in>set (get_all_repos db limit).
          \<forall>y\<in>#(mset (map snd (repo_index db)) - mset (map repo (get_all_repos db limit))).
            stars y \<le> stars (repo res))
    \<and> (\<forall>g. (\<forall>r. stars (g r) = stars r) \<longrightarrow>
          get_all_repos (db\<lparr>repo_index := map (\<lambda>x. (fst x, g (snd x))) (repo_index db)\<rparr>) limit =
            map (\<lambda>res. res\<lparr>repo := g (repo res)\<rparr>) (get_all_repos db limit))"
  using search_browse [OF assms] get_all_repos_fields get_all_repos_sorted get_all_repos_length
    get_all_repos_top get_all_repos_text_independent
  by (intro conjI allI impI) blast+

lemma strip_blank: "strip ''   '' = []"
  by code_simp

lemma kw_the_of: "extract_keywords (normalize_query ''the of'') = []"
  by code_simp

lemma browse_json_db:
  "map (\<lambda>res. (full_name (repo res), stars (repo res))) (get_all_repos json_db 2) =
     [(''acme/fastjson'', 999), (''other/fastjson'', 999)]"
  by code_simp

lemma browse_json_db_all:
  "map (\<lambda>res. (full_name (repo res), stars (repo res))) (get_all_repos json_db 10) =
     [(''acme/fastjson'', 999), (''other/fastjson'', 999), (''acme/slowjson'', 9)]"
  by code_simp

theorem browse_mode_witness:
  "(strip ''   '' = [] \<or> extract_keywords (normalize_query ''   '') = [])
   \<and> search no_ratio loads_empty fts_fails json_db ''   '' 2 (1/10) = Inr (get_all_repos json_db 2)
   \<and> (strip ''the of'' = [] \<or> extract_keywords (normalize_query ''the of'') = [])
   \<and> search no_ratio loads_empty fts_fails json_db ''the of'' 2 (1/10) = Inr (get_all_repos json_db 2)
   \<and> map (\<lambda>res. (full_name (repo res), stars (repo res))) (get_all_repos json_db 2) =
        [(''acme/fastjson'', 999), (''other/fastjson'', 999)]
   \<and> map (\<lambda>res. (score res, matched_fields res, snippets res)) (get_all_repos json_db 2) =
        [(0, [], []), (0, [], [])]
   \<and> (0::int) \<le> 2
   \<and> length (get_all_repos json_db 2) = min (nat 2) (length (repo_index json_db))
   \<and> length (get_all_repos json_db 2) = 2
   \<and> get_all_repos
        (json_db\<lparr>repo_index := map (\<lambda>x. (fst x, (snd x)\<lparr>description := ''zzz''\<rparr>)) (repo_index json_db)\<rparr>) 2 =
       map (\<lambda>res. res\<lparr>repo := (repo res)\<lparr>description := ''zzz''\<rparr>\<rparr>) (get_all_repos json_db 2)"
proof -
  have h1: "strip ''   '' = [] \<or> extract_keywords (normalize_query ''   '') = []"
    by (simp add: strip_blank)
  have h2: "strip ''the of'' = [] \<or> extract_keywords (normalize_query ''the of'') = []"
    by (simp add: kw_the_of)
  note t1 = browse_mode [OF h1, of no_ratio loads_empty fts_fails json_db 2 "1/10"]
  note t2 = browse_mode [OF h2, of no_ratio loads_empty fts_fails json_db 2 "1/10"]
  have a: "search no_ratio loads_empty fts_fails json_db ''   '' 2 (1/10) = Inr (get_all_repos json_db 2)"
    using t1 by blast
  have b: "search no_ratio loads_empty fts_fails json_db ''the of'' 2 (1/10) = Inr (get_all_repos json_db 2)"
    using t2 by blast
  have c: "\<forall>res\<in>set (get_all_repos json_db 2).
             score res = 0 \<and> matched_fields res = [] \<and> snippets res = []"
    using t1 by blast
  have d: "length (get_all_repos json_db 2) = min (nat 2) (length (repo_index json_db))"
    using t1 by simp
  have e: "get_all_repos
        (json_db\<lparr>repo_index := map (\<lambda>x. (fst x, (snd x)\<lparr>description := ''zzz''\<rparr>)) (repo_index json_db)\<rparr>) 2 =
       map (\<lambda>res. res\<lparr>repo := (repo res)\<lparr>description := ''zzz''\<rparr>\<rparr>) (get_all_repos json_db 2)"
  proof -
    have "\<forall>r. stars (r\<lparr>description := ''zzz''\<rparr>) = stars r" by simp
    then show ?thesis using t1 by blast
  qed
  have len: "length (get_all_repos json_db 2) = 2"
    using d by (simp add: json_db_def)
  have f: "map (\<lambda>res. (score res, matched_fields res, snippets res)) (get_all_repos json_db 2) =
        [(0, [], []), (0, [], [])]"
  proof -
    obtain x y where xy: "get_all_repos json_db 2 = [x, y]"
      using len by (metis (no_types, opaque_lifting) One_nat_def Suc_1 length_0_conv length_Suc_conv)
    then show ?thesis using c by simp
  qed
  show ?thesis using h1 h2 a b d e f len browse_json_db by simp
qed













end
